theory Spec2Isabelle
  imports Main "HOL-Library.Word"
begin

unbundle bit_operations_syntax

section \<open>Machine types and the external collaborators\<close>

text \<open>
  BrewCap talks to the System Management Controller through IOKit. \<open>KERN_SUCCESS\<close>
  and \<open>IO_OBJECT_NULL\<close> are the zeros of the system headers. The C integer types are
  words of their width; a C \<open>char\<close> is an Isabelle \<open>char\<close> (eight bits), and
  \<open>(uint8_t) c\<close> widened to 32 bits is \<open>of_char c\<close>. A \<open>const char *\<close> argument is
  the \<open>string\<close> of the characters stored at the pointer, the terminating NUL following
  the last element of the list. A caller's byte buffer is the list of the bytes of the
  object pointed to; a copy that would leave that object is the outcome \<open>None\<close>.
  The \<open>int\<close> results of the C functions (only 0 and -1 occur) are of type \<open>int\<close>.
  The \<open>fprintf\<close> diagnostics are not part of the model. A C variable called
  \<open>size\<close> is \<open>size'\<close> here, and the field \<open>length\<close> is \<open>length'\<close>.
\<close>

type_synonym uint8_t = "8 word"
type_synonym uint16_t = "16 word"
type_synonym uint32_t = "32 word"
type_synonym int32_t = "32 word"
type_synonym kern_return_t = "32 word"
type_synonym io_service_t = "32 word"
type_synonym io_connect_t = "32 word"

definition NUL :: char where [simp]:
  "NUL = CHR 0x00"

definition KERN_SUCCESS :: kern_return_t where [simp]:
  "KERN_SUCCESS = 0"

definition IO_OBJECT_NULL :: io_service_t where [simp]:
  "IO_OBJECT_NULL = 0"

text \<open>The CoreFoundation values that the program hands to the registry.\<close>

datatype CFTypeRef = CFBoolean bool | CFNumberSInt32 int32_t

definition kCFBooleanTrue :: CFTypeRef where [simp]:
  "kCFBooleanTrue = CFBoolean True"

definition kCFBooleanFalse :: CFTypeRef where [simp]:
  "kCFBooleanFalse = CFBoolean False"

text \<open>
  Every call that leaves the process is recorded, in order, in a trace. \<open>'p\<close> is the
  parameter structure exchanged by \<open>IOConnectCallStructMethod\<close>.
\<close>

datatype 'p call =
    GetMatchingService string
  | SetCFProperty io_service_t string CFTypeRef
  | ObjectRelease io_service_t
  | ServiceOpen io_service_t
  | ServiceClose io_connect_t
  | CallStructMethod io_connect_t uint32_t 'p

text \<open>
  The operating system is a parameter: each primitive answers as a function of the calls
  made before it and of its arguments. Nothing is assumed about these functions, so a
  theorem about all kernels covers every behaviour of the collaborators, and a stub is
  one particular kernel.
\<close>

record 'p kernel =
  IOServiceGetMatchingService :: "'p call list \<Rightarrow> string \<Rightarrow> io_service_t"
  IORegistryEntrySetCFProperty ::
    "'p call list \<Rightarrow> io_service_t \<Rightarrow> string \<Rightarrow> CFTypeRef \<Rightarrow> kern_return_t"
  IOServiceOpen :: "'p call list \<Rightarrow> io_service_t \<Rightarrow> io_connect_t \<Rightarrow> kern_return_t \<times> io_connect_t"
  IOConnectCallStructMethod ::
    "'p call list \<Rightarrow> io_connect_t \<Rightarrow> uint32_t \<Rightarrow> 'p \<Rightarrow> kern_return_t \<times> 'p"

text \<open>
  \<open>memcpy dst src n\<close> is the content of the destination object after the copy, or
  \<open>None\<close> when \<open>n\<close> bytes do not fit in one of the two objects.
\<close>

definition memcpy :: "'a list \<Rightarrow> 'a list \<Rightarrow> nat \<Rightarrow> 'a list option" where
  "memcpy dst src n =
     (if n \<le> length src \<and> n \<le> length dst then Some (take n src @ drop n dst) else None)"

section \<open>smc.c\<close>

definition KERNEL_INDEX_SMC :: uint32_t where [simp]:
  "KERNEL_INDEX_SMC = 2"

definition SMC_CMD_READ_BYTES :: uint8_t where [simp]:
  "SMC_CMD_READ_BYTES = 5"

definition SMC_CMD_WRITE_BYTES :: uint8_t where [simp]:
  "SMC_CMD_WRITE_BYTES = 6"

definition SMC_CMD_READ_KEYINFO :: uint8_t where [simp]:
  "SMC_CMD_READ_KEYINFO = 9"

record SMCKeyVersion =
  major :: uint8_t
  minor :: uint8_t
  build :: uint8_t
  reserved :: uint8_t
  release :: uint16_t

record SMCPLimitData =
  version :: uint16_t
  length' :: uint16_t
  cpuPLimit :: uint32_t
  gpuPLimit :: uint32_t
  memPLimit :: uint32_t

record SMCKeyInfoData =
  dataSize :: uint32_t
  dataType :: uint32_t
  dataAttributes :: uint8_t

record SMCParamStruct =
  key :: uint32_t
  vers :: SMCKeyVersion
  pLimitData :: SMCPLimitData
  keyInfo :: SMCKeyInfoData
  padding :: uint16_t
  result :: uint8_t
  status :: uint8_t
  data8 :: uint8_t
  data32 :: uint32_t
  bytes :: "uint8_t list"

text \<open>\<open>memset(&s, 0, sizeof(s))\<close> on an \<open>SMCParamStruct\<close>.\<close>

definition SMCParamStruct_zero :: SMCParamStruct where
  "SMCParamStruct_zero =
     \<lparr>key = 0,
      vers = \<lparr>major = 0, minor = 0, build = 0, reserved = 0, release = 0\<rparr>,
      pLimitData = \<lparr>version = 0, length' = 0, cpuPLimit = 0, gpuPLimit = 0, memPLimit = 0\<rparr>,
      keyInfo = \<lparr>dataSize = 0, dataType = 0, dataAttributes = 0\<rparr>,
      padding = 0, result = 0, status = 0, data8 = 0, data32 = 0,
      bytes = replicate 32 0\<rparr>"

text \<open>The process-wide connection handle, and the trace of the calls made so far.\<close>

record smc_state =
  g_smc_conn :: io_connect_t
  trace :: "SMCParamStruct call list"

definition get_battery_service ::
  "SMCParamStruct kernel \<Rightarrow> smc_state \<Rightarrow> io_service_t \<times> smc_state" where
  "get_battery_service K s =
     (IOServiceGetMatchingService K (trace s) ''AppleSmartBattery'',
      s\<lparr>trace := trace s @ [GetMatchingService ''AppleSmartBattery'']\<rparr>)"

definition set_battery_property ::
  "SMCParamStruct kernel \<Rightarrow> string \<Rightarrow> CFTypeRef \<Rightarrow> smc_state \<Rightarrow> int \<times> smc_state" where
  "set_battery_property K key_name val s0 =
     (let (service, s) = get_battery_service K s0 in
      if service = IO_OBJECT_NULL then (- 1, s)
      else
        let cfKey = key_name;
            res = IORegistryEntrySetCFProperty K (trace s) service cfKey val;
            s = s\<lparr>trace := trace s @ [SetCFProperty service cfKey val]\<rparr>;
            s = s\<lparr>trace := trace s @ [ObjectRelease service]\<rparr>
        in if res \<noteq> KERN_SUCCESS then (- 1, s) else (0, s))"

text \<open>
  The loop of \<open>four_char_code\<close>: \<open>key[i]\<close> is read only while \<open>i < 4\<close> and every
  earlier character was not NUL, so the index never passes the terminator, which is the
  character after the last element of the list.
\<close>

definition char_at :: "string \<Rightarrow> nat \<Rightarrow> char" where
  "char_at str i = (if i < length str then str ! i else NUL)"

function four_char_code_loop :: "string \<Rightarrow> nat \<Rightarrow> uint32_t \<Rightarrow> uint32_t" where
  "four_char_code_loop str i res =
     (if i < 4 \<and> char_at str i \<noteq> NUL
      then four_char_code_loop str (i + 1) (push_bit 8 res OR of_char (char_at str i))
      else res)"
  by pat_completeness auto
termination
  by (relation "measure (\<lambda>(str, i, res). 4 - i)") auto

definition four_char_code :: "string \<Rightarrow> uint32_t" where
  "four_char_code str = four_char_code_loop str 0 0"

definition smc_call ::
  "SMCParamStruct kernel \<Rightarrow> SMCParamStruct \<Rightarrow> smc_state
     \<Rightarrow> (kern_return_t \<times> SMCParamStruct) \<times> smc_state" where
  "smc_call K in_struct s =
     (IOConnectCallStructMethod K (trace s) (g_smc_conn s) KERNEL_INDEX_SMC in_struct,
      s\<lparr>trace := trace s @ [CallStructMethod (g_smc_conn s) KERNEL_INDEX_SMC in_struct]\<rparr>)"

text \<open>
  \<open>smc_read_key_info\<close> stores the key info through its pointer and returns 0, or
  returns -1 and stores nothing: \<open>Some info\<close> and \<open>None\<close>.
\<close>

definition smc_read_key_info ::
  "SMCParamStruct kernel \<Rightarrow> uint32_t \<Rightarrow> smc_state \<Rightarrow> SMCKeyInfoData option \<times> smc_state" where
  "smc_read_key_info K k s0 =
     (let in_s = SMCParamStruct_zero\<lparr>key := k, data8 := SMC_CMD_READ_KEYINFO\<rparr>;
          ((res, out_s), s) = smc_call K in_s s0
      in if res \<noteq> KERN_SUCCESS then (None, s) else (Some (keyInfo out_s), s))"

definition smc_open :: "SMCParamStruct kernel \<Rightarrow> smc_state \<Rightarrow> int \<times> smc_state" where
  "smc_open K s0 =
     (let service = IOServiceGetMatchingService K (trace s0) ''AppleSMC'';
          s = s0\<lparr>trace := trace s0 @ [GetMatchingService ''AppleSMC'']\<rparr>
      in if service = IO_OBJECT_NULL then (- 1, s)
         else
           let (res, conn) = IOServiceOpen K (trace s) service (g_smc_conn s);
               s = s\<lparr>g_smc_conn := conn, trace := trace s @ [ServiceOpen service]\<rparr>;
               s = s\<lparr>trace := trace s @ [ObjectRelease service]\<rparr>
           in if res \<noteq> KERN_SUCCESS then (- 1, s) else (0, s))"

definition smc_close :: "smc_state \<Rightarrow> smc_state" where
  "smc_close s =
     (if g_smc_conn s \<noteq> 0
      then s\<lparr>trace := trace s @ [ServiceClose (g_smc_conn s)], g_smc_conn := 0\<rparr>
      else s)"

text \<open>
  \<open>smc_read_key\<close> returns its \<open>int\<close> together with the contents of \<open>out_bytes\<close> and of
  \<open>*out_size\<close> after the call.
\<close>

definition smc_read_key ::
  "SMCParamStruct kernel \<Rightarrow> string \<Rightarrow> uint8_t list \<Rightarrow> uint32_t \<Rightarrow> smc_state
     \<Rightarrow> (int \<times> uint8_t list \<times> uint32_t) option \<times> smc_state" where
  "smc_read_key K key_name out_bytes out_size s0 =
     (let k = four_char_code key_name in
      case smc_read_key_info K k s0 of
        (None, s) \<Rightarrow> (Some (- 1, out_bytes, out_size), s)
      | (Some info, s) \<Rightarrow>
          let in_s = SMCParamStruct_zero\<lparr>key := k, keyInfo := info, data8 := SMC_CMD_READ_BYTES\<rparr>;
              ((res, out_s), s) = smc_call K in_s s
          in if res \<noteq> KERN_SUCCESS then (Some (- 1, out_bytes, out_size), s)
             else
               let size' = dataSize info;
                   size' = (if size' > 32 then 32 else size')
               in case memcpy out_bytes (bytes out_s) (unat size') of
                    None \<Rightarrow> (None, s)
                  | Some out_bytes \<Rightarrow> (Some (0, out_bytes, size'), s))"

definition smc_write_key ::
  "SMCParamStruct kernel \<Rightarrow> string \<Rightarrow> uint8_t list \<Rightarrow> uint32_t \<Rightarrow> smc_state
     \<Rightarrow> int option \<times> smc_state" where
  "smc_write_key K key_name src size' s0 =
     (let k = four_char_code key_name in
      case smc_read_key_info K k s0 of
        (None, s) \<Rightarrow> (Some (- 1), s)
      | (Some info, s) \<Rightarrow>
          let in_s = SMCParamStruct_zero\<lparr>key := k, keyInfo := info, data8 := SMC_CMD_WRITE_BYTES\<rparr>;
              size' = (if size' > 32 then 32 else size')
          in case memcpy (bytes in_s) src (unat size') of
               None \<Rightarrow> (None, s)
             | Some b \<Rightarrow>
                 let in_s = in_s\<lparr>bytes := b\<rparr>;
                     ((res, out_s), s) = smc_call K in_s s
                 in if res \<noteq> KERN_SUCCESS then (Some (- 1), s) else (Some 0, s))"

definition smc_disable_charging ::
  "SMCParamStruct kernel \<Rightarrow> smc_state \<Rightarrow> int option \<times> smc_state" where
  "smc_disable_charging K s0 =
     (let success = (0 :: int);
          (r, s) = set_battery_property K ''ChargeInhibit'' kCFBooleanTrue s0;
          success = (if r = 0 then 1 else success);
          zero = (0 :: int32_t);
          cfZero = CFNumberSInt32 zero;
          (r, s) = set_battery_property K ''ChargeRate'' cfZero s;
          success = (if r = 0 then 1 else success);
          val = (0x02 :: uint8_t)
      in case smc_write_key K ''CH0B'' [val] 1 s of
           (None, s) \<Rightarrow> (None, s)
         | (Some r, s) \<Rightarrow>
             let success = (if r = 0 then 1 else success);
                 val_i = (0x01 :: uint8_t)
             in case smc_write_key K ''CH0I'' [val_i] 1 s of
                  (None, s) \<Rightarrow> (None, s)
                | (Some r, s) \<Rightarrow>
                    let success = (if r = 0 then 1 else success)
                    in (Some (if success \<noteq> 0 then 0 else - 1), s))"

definition smc_enable_charging ::
  "SMCParamStruct kernel \<Rightarrow> smc_state \<Rightarrow> int option \<times> smc_state" where
  "smc_enable_charging K s0 =
     (let success = (0 :: int);
          (r, s) = set_battery_property K ''ChargeInhibit'' kCFBooleanFalse s0;
          success = (if r = 0 then 1 else success);
          negOne = (- 1 :: int32_t);
          cfNeg = CFNumberSInt32 negOne;
          (r, s) = set_battery_property K ''ChargeRate'' cfNeg s;
          success = (if r = 0 then 1 else success);
          val = (0x00 :: uint8_t)
      in case smc_write_key K ''CH0B'' [val] 1 s of
           (None, s) \<Rightarrow> (None, s)
         | (Some r, s) \<Rightarrow>
             let success = (if r = 0 then 1 else success);
                 val_i = (0x00 :: uint8_t)
             in case smc_write_key K ''CH0I'' [val_i] 1 s of
                  (None, s) \<Rightarrow> (None, s)
                | (Some r, s) \<Rightarrow>
                    let success = (if r = 0 then 1 else success)
                    in (Some (if success \<noteq> 0 then 0 else - 1), s))"

definition smc_set_bclm ::
  "SMCParamStruct kernel \<Rightarrow> uint8_t \<Rightarrow> smc_state \<Rightarrow> int option \<times> smc_state" where
  "smc_set_bclm K percentage s0 =
     (let val = (ucast percentage :: int32_t);
          cfVal = CFNumberSInt32 val;
          (res, s) = set_battery_property K ''ChargeCapacity'' cfVal s0
      in if res = 0 then (Some 0, s)
         else smc_write_key K ''BCLM'' [percentage] 1 s)"

text \<open>
  \<open>smc_get_bclm\<close> returns its \<open>int\<close> and the contents of the object at
  \<open>out_percentage\<close>; the local \<open>size\<close> is dropped.
\<close>

definition smc_get_bclm ::
  "SMCParamStruct kernel \<Rightarrow> uint8_t list \<Rightarrow> smc_state
     \<Rightarrow> (int \<times> uint8_t list) option \<times> smc_state" where
  "smc_get_bclm K out_percentage s0 =
     (let size' = (0 :: uint32_t) in
      case smc_read_key K ''BCLM'' out_percentage size' s0 of
        (None, s) \<Rightarrow> (None, s)
      | (Some (r, out_percentage, size'), s) \<Rightarrow> (Some (r, out_percentage), s))"

section \<open>Resources/smc_tool.c\<close>

text \<open>
  The diagnostic tool has its own copy of the protocol, with its own structure types.
  \<open>_strtoul\<close> and \<open>_ultostr\<close> are \<open>strtoul'\<close> and \<open>ultostr'\<close> here. A
  \<open>UInt32Char_t\<close> is an array of five characters: the list of all of them, terminator
  included. \<open>kIOReturnSuccess\<close> and \<open>kIOReturnError\<close> have their values of
  \<open>IOKit/IOReturn.h\<close>.
\<close>

definition kIOReturnSuccess :: kern_return_t where [simp]:
  "kIOReturnSuccess = 0"

definition kIOReturnError :: kern_return_t where [simp]:
  "kIOReturnError = 0xe00002bc"

record SMCKeyData_vers_t =
  major :: char
  minor :: char
  build :: char
  reserved :: "char list"
  release :: uint16_t

record SMCKeyData_pLimitData_t =
  version :: uint16_t
  length' :: uint16_t
  cpuPLimit :: uint32_t
  gpuPLimit :: uint32_t
  memPLimit :: uint32_t

record SMCKeyData_keyInfo_t =
  dataSize :: uint32_t
  dataType :: uint32_t
  dataAttributes :: char

record SMCKeyData_t =
  key :: uint32_t
  vers :: SMCKeyData_vers_t
  pLimitData :: SMCKeyData_pLimitData_t
  keyInfo :: SMCKeyData_keyInfo_t
  result :: char
  status :: char
  data8 :: char
  data32 :: uint32_t
  bytes :: "uint8_t list"

record SMCVal_t =
  key :: string
  dataSize :: uint32_t
  dataType :: string
  bytes :: "uint8_t list"

text \<open>\<open>memset\<close> to zero of the two structures.\<close>

definition SMCKeyData_zero :: SMCKeyData_t where
  "SMCKeyData_zero =
     \<lparr>SMCKeyData_t.key = 0,
      vers = \<lparr>major = NUL, minor = NUL, build = NUL, reserved = [NUL], release = 0\<rparr>,
      pLimitData = \<lparr>version = 0, length' = 0, cpuPLimit = 0, gpuPLimit = 0, memPLimit = 0\<rparr>,
      keyInfo = \<lparr>SMCKeyData_keyInfo_t.dataSize = 0, SMCKeyData_keyInfo_t.dataType = 0,
                 dataAttributes = NUL\<rparr>,
      result = NUL, status = NUL, data8 = NUL, data32 = 0,
      SMCKeyData_t.bytes = replicate 32 0\<rparr>"

definition SMCVal_zero :: SMCVal_t where
  "SMCVal_zero =
     \<lparr>SMCVal_t.key = replicate 5 NUL, SMCVal_t.dataSize = 0,
      SMCVal_t.dataType = replicate 5 NUL, SMCVal_t.bytes = replicate 32 0\<rparr>"

record tool_state =
  g_conn :: io_connect_t
  tool_trace :: "SMCKeyData_t call list"

text \<open>
  \<open>_strtoul\<close> reads \<open>str[i]\<close> for every \<open>i < size\<close>, whatever the characters are:
  \<open>None\<close> when that leaves the array. The shifted byte is an \<open>int\<close> in C and is
  converted to \<open>UInt32\<close> by \<open>+=\<close>: the 32 bits of the two's complement value. With
  \<open>base\<close> other than 16 the character, signed as on the platforms of the tool, has
  \<open>'0'\<close> subtracted before the shift.
\<close>

function strtoul_loop :: "string \<Rightarrow> int \<Rightarrow> int \<Rightarrow> int \<Rightarrow> uint32_t \<Rightarrow> uint32_t option" where
  "strtoul_loop str size' base i total' =
     (if i < size'
      then
        if nat i < length str
        then
          if base = 16
          then strtoul_loop str size' base (i + 1)
                 (total' + push_bit (nat ((size' - 1 - i) * 8)) (of_char (str ! nat i)))
          else strtoul_loop str size' base (i + 1)
                 (total' + push_bit (nat ((size' - 1 - i) * 8))
                            (word_of_int (signed_take_bit 7 (of_char (str ! nat i)) - 48)))
        else None
      else Some total')"
  by pat_completeness auto
termination
  by (relation "measure (\<lambda>(str, size', base, i, total'). nat (size' - i))") auto

definition strtoul' :: "string \<Rightarrow> int \<Rightarrow> int \<Rightarrow> uint32_t option" where
  "strtoul' str size' base = strtoul_loop str size' base 0 0"

text \<open>\<open>_ultostr\<close> stores five characters: the array after the call.\<close>

definition ultostr' :: "string \<Rightarrow> uint32_t \<Rightarrow> string option" where
  "ultostr' str val =
     (if 5 \<le> length str
      then Some (str[0 := char_of (unat (drop_bit 24 val)),
                     1 := char_of (unat (drop_bit 16 val)),
                     2 := char_of (unat (drop_bit 8 val)),
                     3 := char_of (unat val),
                     4 := NUL])
      else None)"

text \<open>
  \<open>snprintf(dst, n, "%s", src)\<close>: the string at \<open>src\<close> is read up to its terminator
  (\<open>None\<close> when the array holds none), and at most \<open>n - 1\<close> of its characters and a
  NUL are stored; nothing is stored when \<open>n\<close> is 0.
\<close>

definition snprintf_s :: "string \<Rightarrow> nat \<Rightarrow> string \<Rightarrow> string option" where
  "snprintf_s dst n src =
     (if NUL \<notin> set src \<or> length dst < n then None
      else if n = 0 then Some dst
      else
        let cs = take (n - 1) (takeWhile (\<lambda>c. c \<noteq> NUL) src)
        in Some (cs @ [NUL] @ drop (length cs + 1) dst))"

definition SMCCall ::
  "SMCKeyData_t kernel \<Rightarrow> SMCKeyData_t \<Rightarrow> tool_state
     \<Rightarrow> (kern_return_t \<times> SMCKeyData_t) \<times> tool_state" where
  "SMCCall K inputStructure s =
     (IOConnectCallStructMethod K (tool_trace s) (g_conn s) KERNEL_INDEX_SMC inputStructure,
      s\<lparr>tool_trace :=
           tool_trace s @ [CallStructMethod (g_conn s) KERNEL_INDEX_SMC inputStructure]\<rparr>)"

text \<open>
  \<open>SMCReadKey\<close> clears \<open>*val\<close> before anything else, so the structure it leaves there
  is a result only.
\<close>

definition SMCReadKey ::
  "SMCKeyData_t kernel \<Rightarrow> string \<Rightarrow> tool_state
     \<Rightarrow> (kern_return_t \<times> SMCVal_t) option \<times> tool_state" where
  "SMCReadKey K key_name s0 =
     (let inputStructure = SMCKeyData_zero;
          val = SMCVal_zero
      in case strtoul' key_name 4 16 of
           None \<Rightarrow> (None, s0)
         | Some k \<Rightarrow>
             let inputStructure = inputStructure\<lparr>SMCKeyData_t.key := k\<rparr>
             in case snprintf_s (SMCVal_t.key val) 5 key_name of
                  None \<Rightarrow> (None, s0)
                | Some vk \<Rightarrow>
                    let val = val\<lparr>SMCVal_t.key := vk\<rparr>;
                        inputStructure = inputStructure\<lparr>data8 := char_of (unat SMC_CMD_READ_KEYINFO)\<rparr>;
                        ((res, outputStructure), s) = SMCCall K inputStructure s0
                    in if res \<noteq> kIOReturnSuccess then (Some (res, val), s)
                       else
                         let val = val\<lparr>SMCVal_t.dataSize :=
                                         SMCKeyData_keyInfo_t.dataSize (keyInfo outputStructure)\<rparr>
                         in case ultostr' (SMCVal_t.dataType val)
                                   (SMCKeyData_keyInfo_t.dataType (keyInfo outputStructure)) of
                              None \<Rightarrow> (None, s)
                            | Some dt \<Rightarrow>
                                let val = val\<lparr>SMCVal_t.dataType := dt\<rparr>;
                                    inputStructure = inputStructure
                                      \<lparr>keyInfo := (keyInfo inputStructure)
                                          \<lparr>SMCKeyData_keyInfo_t.dataSize := SMCVal_t.dataSize val\<rparr>\<rparr>;
                                    inputStructure = inputStructure\<lparr>data8 := char_of (unat SMC_CMD_READ_BYTES)\<rparr>;
                                    ((res, outputStructure), s) = SMCCall K inputStructure s
                                in if res \<noteq> kIOReturnSuccess then (Some (res, val), s)
                                   else
                                     let val = val\<lparr>SMCVal_t.bytes := SMCKeyData_t.bytes outputStructure\<rparr>
                                     in (Some (kIOReturnSuccess, val), s))"

definition SMCWriteKey ::
  "SMCKeyData_t kernel \<Rightarrow> SMCVal_t \<Rightarrow> tool_state \<Rightarrow> kern_return_t option \<times> tool_state" where
  "SMCWriteKey K writeVal s0 =
     (case SMCReadKey K (SMCVal_t.key writeVal) s0 of
        (None, s) \<Rightarrow> (None, s)
      | (Some (res, readVal), s) \<Rightarrow>
          if res \<noteq> kIOReturnSuccess then (Some res, s)
          else if SMCVal_t.dataSize readVal \<noteq> SMCVal_t.dataSize writeVal
          then (Some kIOReturnError, s)
          else
            case strtoul' (SMCVal_t.key writeVal) 4 16 of
              None \<Rightarrow> (None, s)
            | Some k \<Rightarrow>
                let inputStructure = SMCKeyData_zero;
                    inputStructure = inputStructure\<lparr>SMCKeyData_t.key := k\<rparr>;
                    inputStructure = inputStructure\<lparr>data8 := char_of (unat SMC_CMD_WRITE_BYTES)\<rparr>;
                    inputStructure = inputStructure
                      \<lparr>keyInfo := (keyInfo inputStructure)
                          \<lparr>SMCKeyData_keyInfo_t.dataSize := SMCVal_t.dataSize writeVal\<rparr>\<rparr>;
                    inputStructure = inputStructure\<lparr>SMCKeyData_t.bytes := SMCVal_t.bytes writeVal\<rparr>;
                    ((res, outputStructure), s) = SMCCall K inputStructure s
                in (Some res, s))"

section \<open>Vocabulary of the properties\<close>

text \<open>The 32-bit value whose bytes, most significant first, are four characters.\<close>

definition be32 :: "char \<Rightarrow> char \<Rightarrow> char \<Rightarrow> char \<Rightarrow> uint32_t" where
  "be32 a b c d =
     push_bit 24 (of_char a) OR push_bit 16 (of_char b) OR push_bit 8 (of_char c) OR of_char d"

text \<open>
  The buffer in which the tool holds a key: \<open>main\<close> copies at most four characters of
  its argument into a zeroed \<open>UInt32Char_t\<close> (\<open>strncpy(key, optarg, 4)\<close>, then
  \<open>key[4] = 0\<close>).
\<close>

definition key_buffer :: "string \<Rightarrow> string" where
  "key_buffer str =
     (let cs = take 4 (takeWhile (\<lambda>c. c \<noteq> NUL) str) in cs @ replicate (5 - length cs) NUL)"

subsection \<open>Stub kernels\<close>

text \<open>
  A stub for \<open>smc.c\<close>: the battery service exists, a property write answers
  \<open>reg name\<close>, the key-info query answers \<open>info_res\<close> and declares \<open>declared\<close>
  bytes, a read answers \<open>read_res\<close> with \<open>payload\<close>, and a write of key \<open>k\<close>
  answers \<open>write_res k\<close>.
\<close>

definition stub_kernel ::
  "(string \<Rightarrow> kern_return_t) \<Rightarrow> kern_return_t \<Rightarrow> uint32_t \<Rightarrow> kern_return_t \<Rightarrow> uint8_t list
     \<Rightarrow> (uint32_t \<Rightarrow> kern_return_t) \<Rightarrow> SMCParamStruct kernel" where
  "stub_kernel reg info_res declared read_res payload write_res =
     \<lparr>IOServiceGetMatchingService = (\<lambda>h name. 1),
      IORegistryEntrySetCFProperty = (\<lambda>h service name v. reg name),
      IOServiceOpen = (\<lambda>h service conn. (KERN_SUCCESS, 7)),
      IOConnectCallStructMethod = (\<lambda>h conn sel p.
        if SMCParamStruct.data8 p = SMC_CMD_READ_KEYINFO
        then (info_res, SMCParamStruct_zero\<lparr>SMCParamStruct.keyInfo :=
                \<lparr>SMCKeyInfoData.dataSize = declared, SMCKeyInfoData.dataType = 0,
                 SMCKeyInfoData.dataAttributes = 0\<rparr>\<rparr>)
        else if SMCParamStruct.data8 p = SMC_CMD_READ_BYTES
        then (read_res, SMCParamStruct_zero\<lparr>SMCParamStruct.bytes := payload\<rparr>)
        else (write_res (SMCParamStruct.key p), SMCParamStruct_zero))\<rparr>"

text \<open>The same stub for the tool, every call succeeding.\<close>

definition tool_stub :: "uint32_t \<Rightarrow> uint8_t list \<Rightarrow> SMCKeyData_t kernel" where
  "tool_stub declared payload =
     \<lparr>IOServiceGetMatchingService = (\<lambda>h name. 1),
      IORegistryEntrySetCFProperty = (\<lambda>h service name v. KERN_SUCCESS),
      IOServiceOpen = (\<lambda>h service conn. (KERN_SUCCESS, 7)),
      IOConnectCallStructMethod = (\<lambda>h conn sel p.
        if SMCKeyData_t.data8 p = char_of (unat SMC_CMD_READ_KEYINFO)
        then (kIOReturnSuccess, SMCKeyData_zero\<lparr>SMCKeyData_t.keyInfo :=
                \<lparr>SMCKeyData_keyInfo_t.dataSize = declared, SMCKeyData_keyInfo_t.dataType = 0,
                 SMCKeyData_keyInfo_t.dataAttributes = NUL\<rparr>\<rparr>)
        else if SMCKeyData_t.data8 p = char_of (unat SMC_CMD_READ_BYTES)
        then (kIOReturnSuccess, SMCKeyData_zero\<lparr>SMCKeyData_t.bytes := payload\<rparr>)
        else (kIOReturnSuccess, SMCKeyData_zero))\<rparr>"

text \<open>A property write that succeeds exactly for the names with a true flag.\<close>

definition reg_stub :: "bool \<Rightarrow> bool \<Rightarrow> string \<Rightarrow> kern_return_t" where
  "reg_stub b1 b2 name =
     (if name = ''ChargeInhibit'' \<and> b1 \<or> name = ''ChargeRate'' \<and> b2 then KERN_SUCCESS else 5)"

text \<open>A key write that succeeds exactly for the keys with a true flag.\<close>

definition write_stub :: "bool \<Rightarrow> bool \<Rightarrow> uint32_t \<Rightarrow> kern_return_t" where
  "write_stub b3 b4 k =
     (if k = four_char_code ''CH0B'' \<and> b3 \<or> k = four_char_code ''CH0I'' \<and> b4
      then KERN_SUCCESS else 5)"

definition opened :: smc_state where
  "opened = \<lparr>g_smc_conn = 7, trace = []\<rparr>"

definition tool_opened :: tool_state where
  "tool_opened = \<lparr>g_conn = 7, tool_trace = []\<rparr>"

text \<open>Property writes and key writes that always fail, or always succeed.\<close>

definition reg_fail :: "string \<Rightarrow> kern_return_t" where
  "reg_fail name = 5"

definition reg_ok :: "string \<Rightarrow> kern_return_t" where
  "reg_ok name = KERN_SUCCESS"

definition write_fail :: "uint32_t \<Rightarrow> kern_return_t" where
  "write_fail k = 5"

definition write_ok :: "uint32_t \<Rightarrow> kern_return_t" where
  "write_ok k = KERN_SUCCESS"

text \<open>
  What the tool builds for \<open>smc -k CH0B -w 0200\<close>: two bytes for a key that the stub
  declares with one byte.
\<close>

definition mismatched_write :: SMCVal_t where
  "mismatched_write =
     \<lparr>SMCVal_t.key = key_buffer ''CH0B'', SMCVal_t.dataSize = 2,
      SMCVal_t.dataType = replicate 5 NUL, SMCVal_t.bytes = [2, 0] @ replicate 30 0\<rparr>"

section \<open>Auxiliary facts\<close>

declare four_char_code_loop.simps [simp del]
declare strtoul_loop.simps [simp del]

subsection \<open>Characters and 32-bit words\<close>

lemma bit_of_char_word: "8 \<le> n \<Longrightarrow> \<not> bit (of_char c :: 32 word) n"
  by (simp only: of_char_def bit_horner_sum_bit_iff) simp

lemma bit_of_char_lt: "bit (of_char c :: 32 word) n \<Longrightarrow> n < 8"
  using bit_of_char_word [of n c] by (cases "8 \<le> n") simp_all

lemma unat_of_char: "unat (of_char c :: 32 word) = of_char c"
proof -
  have "(of_char c :: 32 word) = word_of_nat (of_char c)"
    by (simp add: of_nat_of_char)
  moreover have "(of_char c :: nat) < 256"
    by (rule nat_of_char_less_256)
  then have "(of_char c :: nat) < 2 ^ 32"
    by (rule order.strict_trans) simp
  ultimately show ?thesis
    by (simp add: unat_of_nat)
qed

lemma char_of_unat: "char_of (unat (w :: 32 word)) = c \<longleftrightarrow> take_bit 8 w = of_char c"
proof -
  have "char_of (unat w) = c \<longleftrightarrow> take_bit 8 (unat w) = (of_char c :: nat)"
    by (rule char_of_eq_iff)
  also have "\<dots> \<longleftrightarrow> unat (take_bit 8 w) = unat (of_char c :: 32 word)"
    by (simp add: unat_of_char unsigned_take_bit_eq)
  also have "\<dots> \<longleftrightarrow> take_bit 8 w = of_char c"
    by (rule word_unat_eq_iff [symmetric])
  finally show ?thesis .
qed

lemma sum_eq_be32:
  "push_bit 24 (of_char a :: 32 word) + push_bit 16 (of_char b) + push_bit 8 (of_char c) + of_char d
     = be32 a b c d"
proof -
  have 1: "push_bit 8 (of_char c :: 32 word) + of_char d = push_bit 8 (of_char c) OR of_char d"
    by (rule disjunctive_add) (auto simp: bit_simps bit_of_char_word)
  have 2: "push_bit 16 (of_char b :: 32 word) + (push_bit 8 (of_char c) OR of_char d)
             = push_bit 16 (of_char b) OR push_bit 8 (of_char c) OR of_char d"
    by (rule disjunctive_add) (auto simp: bit_simps bit_of_char_word)
  have 3: "push_bit 24 (of_char a :: 32 word) + (push_bit 16 (of_char b) OR push_bit 8 (of_char c) OR of_char d)
             = push_bit 24 (of_char a) OR push_bit 16 (of_char b) OR push_bit 8 (of_char c) OR of_char d"
    by (rule disjunctive_add) (auto simp: bit_simps bit_of_char_word)
  show ?thesis
    by (simp only: add.assoc 1 2 3 be32_def)
qed

lemma shift_or_eq_be32:
  "push_bit 8 (push_bit 8 (push_bit 8 (push_bit 8 0 OR of_char a) OR of_char b) OR of_char c) OR of_char d
     = be32 a b c d"
  by (simp add: be32_def push_bit_or or.assoc)

lemma be32_byte3: "take_bit 8 (drop_bit 24 (be32 a b c d)) = of_char a"
  by (rule bit_eqI) (auto simp: be32_def bit_simps bit_of_char_word dest: bit_of_char_lt)

lemma be32_byte2: "take_bit 8 (drop_bit 16 (be32 a b c d)) = of_char b"
  by (rule bit_eqI) (auto simp: be32_def bit_simps bit_of_char_word)

lemma be32_byte1: "take_bit 8 (drop_bit 8 (be32 a b c d)) = of_char c"
  by (rule bit_eqI) (auto simp: be32_def bit_simps bit_of_char_word)

lemma be32_byte0: "take_bit 8 (be32 a b c d) = of_char d"
  by (rule bit_eqI) (auto simp: be32_def bit_simps bit_of_char_word)

lemma four_char_code_4:
  assumes "a \<noteq> NUL" "b \<noteq> NUL" "c \<noteq> NUL" "d \<noteq> NUL"
  shows "four_char_code (a # b # c # d # r) = be32 a b c d"
proof -
  have "four_char_code (a # b # c # d # r) = 
    push_bit 8 (push_bit 8 (push_bit 8 (push_bit 8 0 OR of_char a) OR of_char b) OR of_char c) OR of_char d"
    using assms by (simp add: four_char_code_def four_char_code_loop.simps char_at_def)
  then show ?thesis by (simp only: shift_or_eq_be32)
qed

lemma strtoul_4: "strtoul' (a # b # c # d # r) 4 16 = Some (be32 a b c d)"
proof -
  have "strtoul' (a # b # c # d # r) 4 16 = Some (0 + push_bit 24 (of_char a :: 32 word) + push_bit 16 (of_char b) + push_bit 8 (of_char c) + of_char d)"
    by (simp add: strtoul'_def strtoul_loop.simps)
  then show ?thesis by (simp only: sum_eq_be32 add_0_left)
qed

lemma ultostr_be32:
  assumes "length buf = 5"
  shows "ultostr' buf (be32 a b c d) = Some [a, b, c, d, NUL]"
proof -
  obtain v w x y z where buf: "buf = [v, w, x, y, z]"
    using assms by (auto simp: length_Suc_conv eval_nat_numeral)
  have "char_of (unat (drop_bit 24 (be32 a b c d))) = a"
       "char_of (unat (drop_bit 16 (be32 a b c d))) = b"
       "char_of (unat (drop_bit 8 (be32 a b c d))) = c"
       "char_of (unat (be32 a b c d)) = d"
    by (simp_all only: char_of_unat be32_byte3 be32_byte2 be32_byte1 be32_byte0)
  then show ?thesis
    by (simp add: ultostr'_def buf)
qed

subsection \<open>The key access protocol of smc.c in closed form\<close>

lemma clamp32_unat: "unat (if (32 :: 32 word) < sz then 32 else sz) = min (unat sz) 32"
  by (simp add: word_less_nat_alt min_def)

lemma clamp32_of_nat: "(if (32 :: 32 word) < sz then 32 else sz) = word_of_nat (min (unat sz) 32)"
  by (simp add: word_less_nat_alt min_def)

lemma unat_clamp32: "unat (word_of_nat (min (unat (sz :: 32 word)) 32) :: 32 word) = min (unat sz) 32"
  by (rule le_unat_uoi [of _ sz]) simp

lemma smc_read_key_info_eq:
  assumes "IOConnectCallStructMethod K (trace s) (g_smc_conn s) 2 
            (SMCParamStruct_zero\<lparr>SMCParamStruct.key := k, SMCParamStruct.data8 := 9\<rparr>) = (res, rep)"
  shows "smc_read_key_info K k s =
    (if res \<noteq> 0 then None else Some (SMCParamStruct.keyInfo rep),
     s\<lparr>trace := trace s @ [CallStructMethod (g_smc_conn s) 2 
           (SMCParamStruct_zero\<lparr>SMCParamStruct.key := k, SMCParamStruct.data8 := 9\<rparr>)]\<rparr>)"
  using assms by (simp add: smc_read_key_info_def smc_call_def)

lemma smc_read_key_eq:
  assumes "IOConnectCallStructMethod K (trace s) (g_smc_conn s) 2 
            (SMCParamStruct_zero\<lparr>SMCParamStruct.key := four_char_code key_name, SMCParamStruct.data8 := 9\<rparr>) = (res1, rep1)"
    and "IOConnectCallStructMethod K (trace s @ [CallStructMethod (g_smc_conn s) 2 
            (SMCParamStruct_zero\<lparr>SMCParamStruct.key := four_char_code key_name, SMCParamStruct.data8 := 9\<rparr>)])
           (g_smc_conn s) 2
            (SMCParamStruct_zero\<lparr>SMCParamStruct.key := four_char_code key_name, 
               SMCParamStruct.keyInfo := SMCParamStruct.keyInfo rep1, SMCParamStruct.data8 := 5\<rparr>) = (res2, rep2)"
  shows "smc_read_key K key_name out_bytes out_size s =
    (if res1 \<noteq> 0 then (Some (- 1, out_bytes, out_size), 
        s\<lparr>trace := trace s @ [CallStructMethod (g_smc_conn s) 2 
            (SMCParamStruct_zero\<lparr>SMCParamStruct.key := four_char_code key_name, SMCParamStruct.data8 := 9\<rparr>)]\<rparr>)
     else (if res2 \<noteq> 0 then Some (- 1, out_bytes, out_size)
           else map_option (\<lambda>ob. (0, ob, word_of_nat (min (unat (SMCKeyInfoData.dataSize (SMCParamStruct.keyInfo rep1))) 32)))
                  (memcpy out_bytes (SMCParamStruct.bytes rep2) (min (unat (SMCKeyInfoData.dataSize (SMCParamStruct.keyInfo rep1))) 32)),
       s\<lparr>trace := trace s @ [CallStructMethod (g_smc_conn s) 2 
            (SMCParamStruct_zero\<lparr>SMCParamStruct.key := four_char_code key_name, SMCParamStruct.data8 := 9\<rparr>),
            CallStructMethod (g_smc_conn s) 2
            (SMCParamStruct_zero\<lparr>SMCParamStruct.key := four_char_code key_name, 
               SMCParamStruct.keyInfo := SMCParamStruct.keyInfo rep1, SMCParamStruct.data8 := 5\<rparr>)]\<rparr>))"
  using assms
  by (simp add: smc_read_key_def smc_read_key_info_eq [OF assms(1)] smc_call_def Let_def 
       clamp32_of_nat unat_clamp32 split: option.splits)

lemma bytes_zero: "SMCParamStruct.bytes SMCParamStruct_zero = replicate 32 0"
  by (simp add: SMCParamStruct_zero_def)

lemma smc_write_key_eq:
  assumes m: "m = min (unat n) 32"
    and "IOConnectCallStructMethod K (trace s) (g_smc_conn s) 2 
            (SMCParamStruct_zero\<lparr>SMCParamStruct.key := four_char_code key_name, SMCParamStruct.data8 := 9\<rparr>) = (res1, rep1)"
    and "IOConnectCallStructMethod K (trace s @ [CallStructMethod (g_smc_conn s) 2 
            (SMCParamStruct_zero\<lparr>SMCParamStruct.key := four_char_code key_name, SMCParamStruct.data8 := 9\<rparr>)])
           (g_smc_conn s) 2
            (SMCParamStruct_zero\<lparr>SMCParamStruct.key := four_char_code key_name, 
               SMCParamStruct.keyInfo := SMCParamStruct.keyInfo rep1, SMCParamStruct.data8 := 6,
               SMCParamStruct.bytes := take m src @ replicate (32 - m) 0\<rparr>) = (res2, rep2)"
  shows "smc_write_key K key_name src n s =
    (if res1 \<noteq> 0 then (Some (- 1), 
        s\<lparr>trace := trace s @ [CallStructMethod (g_smc_conn s) 2 
            (SMCParamStruct_zero\<lparr>SMCParamStruct.key := four_char_code key_name, SMCParamStruct.data8 := 9\<rparr>)]\<rparr>)
     else if length src < m then (None,
        s\<lparr>trace := trace s @ [CallStructMethod (g_smc_conn s) 2 
            (SMCParamStruct_zero\<lparr>SMCParamStruct.key := four_char_code key_name, SMCParamStruct.data8 := 9\<rparr>)]\<rparr>)
     else (Some (if res2 \<noteq> 0 then - 1 else 0),
       s\<lparr>trace := trace s @ [CallStructMethod (g_smc_conn s) 2 
            (SMCParamStruct_zero\<lparr>SMCParamStruct.key := four_char_code key_name, SMCParamStruct.data8 := 9\<rparr>),
            CallStructMethod (g_smc_conn s) 2
            (SMCParamStruct_zero\<lparr>SMCParamStruct.key := four_char_code key_name, 
               SMCParamStruct.keyInfo := SMCParamStruct.keyInfo rep1, SMCParamStruct.data8 := 6,
               SMCParamStruct.bytes := take m src @ replicate (32 - m) 0\<rparr>)]\<rparr>))"
proof -
  have cl: "unat (if 32 < n then 32 else n) = m"
    by (simp only: m clamp32_unat)
  have m32: "m \<le> 32"
    by (simp add: m)
  show ?thesis
  proof (cases "m \<le> length src")
    case True
    then show ?thesis
      using assms(3) m32
      by (simp add: smc_write_key_def smc_read_key_info_eq [OF assms(2)] smc_call_def Let_def
          memcpy_def cl bytes_zero)
  next
    case False
    then show ?thesis
      by (simp add: smc_write_key_def smc_read_key_info_eq [OF assms(2)] Let_def
          memcpy_def cl bytes_zero)
  qed
qed

lemma set_battery_property_eq:
  "set_battery_property K name v s =
    (let service = IOServiceGetMatchingService K (trace s) ''AppleSmartBattery'';
         res = IORegistryEntrySetCFProperty K (trace s @ [GetMatchingService ''AppleSmartBattery'']) service name v
     in if service = 0 then (- 1, s\<lparr>trace := trace s @ [GetMatchingService ''AppleSmartBattery'']\<rparr>)
        else (if res \<noteq> 0 then - 1 else 0, 
              s\<lparr>trace := trace s @ [GetMatchingService ''AppleSmartBattery'', SetCFProperty service name v, ObjectRelease service]\<rparr>))"
  by (simp add: set_battery_property_def get_battery_service_def Let_def)

lemma set_battery_property_trace:
  "\<exists>r s1 t. set_battery_property K name v s = (r, s1) \<and>
      trace s1 = trace s @ GetMatchingService ''AppleSmartBattery'' # t \<and>
      g_smc_conn s1 = g_smc_conn s"
  by (simp add: set_battery_property_eq Let_def)

lemma smc_write_key_one_byte:
  "\<exists>r s1 t. smc_write_key K key_name [v] 1 s = (Some r, s1) \<and>
      trace s1 = trace s @ CallStructMethod (g_smc_conn s) KERNEL_INDEX_SMC
        (SMCParamStruct_zero\<lparr>SMCParamStruct.key := four_char_code key_name,
                              SMCParamStruct.data8 := SMC_CMD_READ_KEYINFO\<rparr>) # t \<and>
      g_smc_conn s1 = g_smc_conn s"
proof -
  have m: "(1 :: nat) = min (unat (1 :: 32 word)) 32"
    by simp
  obtain res1 rep1 where 1: "IOConnectCallStructMethod K (trace s) (g_smc_conn s) 2 
            (SMCParamStruct_zero\<lparr>SMCParamStruct.key := four_char_code key_name, SMCParamStruct.data8 := 9\<rparr>) = (res1, rep1)"
    by (rule prod.exhaust)
  obtain res2 rep2 where 2: "IOConnectCallStructMethod K (trace s @ [CallStructMethod (g_smc_conn s) 2 
            (SMCParamStruct_zero\<lparr>SMCParamStruct.key := four_char_code key_name, SMCParamStruct.data8 := 9\<rparr>)])
           (g_smc_conn s) 2
            (SMCParamStruct_zero\<lparr>SMCParamStruct.key := four_char_code key_name, 
               SMCParamStruct.keyInfo := SMCParamStruct.keyInfo rep1, SMCParamStruct.data8 := 6,
               SMCParamStruct.bytes := take 1 [v] @ replicate (32 - 1) 0\<rparr>) = (res2, rep2)"
    by (rule prod.exhaust)
  show ?thesis
    by (simp add: smc_write_key_eq [OF m 1 2])
qed

subsection \<open>The read of the tool in closed form\<close>

lemma ultostr_zero_buffer: "\<exists>dt. ultostr' (SMCVal_t.dataType SMCVal_zero) v = Some dt"
  by (simp add: ultostr'_def SMCVal_zero_def)

lemma snprintf_zero_buffer:
  "NUL \<in> set key_name \<Longrightarrow> \<exists>vk. snprintf_s (SMCVal_t.key SMCVal_zero) 5 key_name = Some vk"
  by (simp add: snprintf_s_def SMCVal_zero_def Let_def)

lemma SMCReadKey_eq:
  assumes k: "strtoul' key_name 4 16 = Some k"
    and nul: "NUL \<in> set key_name"
    and 1: "IOConnectCallStructMethod K (tool_trace s) (g_conn s) 2
              (SMCKeyData_zero\<lparr>SMCKeyData_t.key := k, SMCKeyData_t.data8 := char_of (9 :: nat)\<rparr>) = (res1, rep1)"
    and 2: "IOConnectCallStructMethod K
              (tool_trace s @ [CallStructMethod (g_conn s) 2
                 (SMCKeyData_zero\<lparr>SMCKeyData_t.key := k, SMCKeyData_t.data8 := char_of (9 :: nat)\<rparr>)])
              (g_conn s) 2
              (SMCKeyData_zero\<lparr>SMCKeyData_t.key := k,
                 SMCKeyData_t.keyInfo := (SMCKeyData_t.keyInfo SMCKeyData_zero)
                   \<lparr>SMCKeyData_keyInfo_t.dataSize := SMCKeyData_keyInfo_t.dataSize (SMCKeyData_t.keyInfo rep1)\<rparr>,
                 SMCKeyData_t.data8 := char_of (5 :: nat)\<rparr>) = (res2, rep2)"
  shows "\<exists>val. SMCReadKey K key_name s =
           (if res1 \<noteq> 0
            then (Some (res1, val),
                  s\<lparr>tool_trace := tool_trace s @ [CallStructMethod (g_conn s) 2
                     (SMCKeyData_zero\<lparr>SMCKeyData_t.key := k, SMCKeyData_t.data8 := char_of (9 :: nat)\<rparr>)]\<rparr>)
            else (Some (res2, val),
                  s\<lparr>tool_trace := tool_trace s @ [CallStructMethod (g_conn s) 2
                     (SMCKeyData_zero\<lparr>SMCKeyData_t.key := k, SMCKeyData_t.data8 := char_of (9 :: nat)\<rparr>),
                     CallStructMethod (g_conn s) 2
                     (SMCKeyData_zero\<lparr>SMCKeyData_t.key := k,
                        SMCKeyData_t.keyInfo := (SMCKeyData_t.keyInfo SMCKeyData_zero)
                          \<lparr>SMCKeyData_keyInfo_t.dataSize := SMCKeyData_keyInfo_t.dataSize (SMCKeyData_t.keyInfo rep1)\<rparr>,
                        SMCKeyData_t.data8 := char_of (5 :: nat)\<rparr>)]\<rparr>)) \<and>
           (res1 = 0 \<longrightarrow> SMCVal_t.dataSize val = SMCKeyData_keyInfo_t.dataSize (SMCKeyData_t.keyInfo rep1))"
proof -
  obtain vk where vk: "snprintf_s (SMCVal_t.key SMCVal_zero) 5 key_name = Some vk"
    using snprintf_zero_buffer [OF nul] by blast
  obtain dt where dt: "ultostr' (SMCVal_t.dataType SMCVal_zero)
      (SMCKeyData_keyInfo_t.dataType (SMCKeyData_t.keyInfo rep1)) = Some dt"
    using ultostr_zero_buffer by blast
  show ?thesis
    using 1 2
    by (auto simp: SMCReadKey_def SMCCall_def Let_def k vk dt)
qed

subsection \<open>Short keys and literal keys\<close>

lemma four_char_code_short:
  "four_char_code [] = 0"
  "a \<noteq> NUL \<Longrightarrow> four_char_code [a] = of_char a"
  "a \<noteq> NUL \<Longrightarrow> b \<noteq> NUL \<Longrightarrow> four_char_code [a, b] = push_bit 8 (of_char a) OR of_char b"
  "a \<noteq> NUL \<Longrightarrow> b \<noteq> NUL \<Longrightarrow> c \<noteq> NUL \<Longrightarrow>
     four_char_code [a, b, c] = push_bit 16 (of_char a) OR push_bit 8 (of_char b) OR of_char c"
  by (simp_all add: four_char_code_def four_char_code_loop.simps char_at_def push_bit_or or.assoc)

lemma be32_NUL:
  "be32 NUL NUL NUL NUL = 0"
  "be32 a NUL NUL NUL = push_bit 24 (of_char a)"
  "be32 a b NUL NUL = push_bit 16 (push_bit 8 (of_char a) OR of_char b)"
  "be32 a b c NUL = push_bit 8 (push_bit 16 (of_char a) OR push_bit 8 (of_char b) OR of_char c)"
  by (simp_all add: be32_def push_bit_or or.assoc)

lemma key_buffer_cases:
  "key_buffer [] = [NUL, NUL, NUL, NUL, NUL]"
  "a \<noteq> NUL \<Longrightarrow> key_buffer [a] = [a, NUL, NUL, NUL, NUL]"
  "a \<noteq> NUL \<Longrightarrow> b \<noteq> NUL \<Longrightarrow> key_buffer [a, b] = [a, b, NUL, NUL, NUL]"
  "a \<noteq> NUL \<Longrightarrow> b \<noteq> NUL \<Longrightarrow> c \<noteq> NUL \<Longrightarrow> key_buffer [a, b, c] = [a, b, c, NUL, NUL]"
  "a \<noteq> NUL \<Longrightarrow> b \<noteq> NUL \<Longrightarrow> c \<noteq> NUL \<Longrightarrow> d \<noteq> NUL \<Longrightarrow>
     key_buffer (a # b # c # d # r) = [a, b, c, d, NUL]"
  by (simp_all add: key_buffer_def eval_nat_numeral)

lemma strtoul_key_buffer:
  assumes "NUL \<notin> set (take 4 str)"
  shows "strtoul' (key_buffer str) 4 16 = Some (push_bit (8 * (4 - length str)) (four_char_code str))"
proof -
  consider "str = []" | a where "str = [a]" | a b where "str = [a, b]"
    | a b c where "str = [a, b, c]" | a b c d r where "str = a # b # c # d # r"
    by (metis list.exhaust)
  then show ?thesis
  proof cases
    case 1
    then show ?thesis
      by (simp add: key_buffer_cases strtoul_4 four_char_code_short be32_NUL(1) del: NUL_def)
  next
    case 2
    then have "a \<noteq> NUL" using assms by auto
    then show ?thesis
      by (simp add: 2 key_buffer_cases strtoul_4 four_char_code_short be32_NUL(2) del: NUL_def)
  next
    case 3
    then have "a \<noteq> NUL" "b \<noteq> NUL" using assms by auto
    then show ?thesis
      by (simp add: 3 key_buffer_cases strtoul_4 four_char_code_short be32_NUL(3) del: NUL_def)
  next
    case 4
    then have "a \<noteq> NUL" "b \<noteq> NUL" "c \<noteq> NUL" using assms by auto
    then show ?thesis
      by (simp add: 4 key_buffer_cases strtoul_4 four_char_code_short be32_NUL(4) del: NUL_def)
  next
    case 5
    then have "a \<noteq> NUL" "b \<noteq> NUL" "c \<noteq> NUL" "d \<noteq> NUL"
      using assms by auto
    then show ?thesis
      by (simp add: 5 key_buffer_cases strtoul_4 four_char_code_4 del: NUL_def)
  qed
qed

lemma four_char_code_literals:
  "four_char_code ''CH0B'' = 0x43483042"
  "four_char_code ''CH0I'' = 0x43483049"
  "four_char_code ''BCLM'' = 0x42434C4D"
  by (simp_all add: four_char_code_def four_char_code_loop.simps char_at_def)

lemma strtoul_CH0B: "strtoul' (key_buffer ''CH0B'') 4 16 = Some 0x43483042"
  by (simp add: key_buffer_def strtoul'_def strtoul_loop.simps)

lemma smc_disable_charging_sixteen:
  "fst (smc_disable_charging
     (stub_kernel (reg_stub b1 b2) KERN_SUCCESS 1 KERN_SUCCESS (replicate 32 0)
        (write_stub b3 b4)) opened) = Some (if b1 \<or> b2 \<or> b3 \<or> b4 then 0 else - 1)"
  by (simp add: smc_disable_charging_def stub_kernel_def opened_def Let_def reg_stub_def write_stub_def
       set_battery_property_eq smc_write_key_def smc_read_key_info_def smc_call_def memcpy_def
       bytes_zero four_char_code_literals)

subsection \<open>Keys of one to three characters\<close>

lemma of_char_word_nonzero:
  assumes "c \<noteq> NUL"
  shows "\<exists>i < 8. bit (of_char c :: 32 word) i"
proof -
  have "(of_char c :: 32 word) \<noteq> of_char NUL"
    using assms by (metis unat_of_char of_char_eq_iff)
  then have "(of_char c :: 32 word) \<noteq> 0"
    by simp
  then obtain i where "bit (of_char c :: 32 word) i"
    by (auto simp: bit_eq_iff)
  then show ?thesis
    using bit_of_char_lt by blast
qed

lemma push_bit_differs:
  assumes "bit (x :: 32 word) i" and "i < k"
  shows "push_bit k x \<noteq> x"
proof
  assume "push_bit k x = x"
  then have "bit (push_bit k x) i"
    using assms(1) by simp
  then show False
    using assms(2) by (simp add: bit_push_bit_iff)
qed

lemma strtoul_differs_short:
  assumes "1 \<le> length str" and "length str < 4" and "NUL \<notin> set str"
  shows "strtoul' (key_buffer str) 4 16 \<noteq> Some (four_char_code str)"
proof -
  have n: "NUL \<notin> set (take 4 str)"
    using assms(2,3) by simp
  have eq: "strtoul' (key_buffer str) 4 16 =
      Some (push_bit (8 * (4 - length str)) (four_char_code str))"
    using n by (rule strtoul_key_buffer)
  consider a where "str = [a]" | a b where "str = [a, b]" | a b c where "str = [a, b, c]"
    using assms(1,2) by (auto simp: length_Suc_conv eval_nat_numeral less_Suc_eq)
  then have "\<exists>i < 8. bit (four_char_code str) i"
  proof cases
    case 1
    then have "a \<noteq> NUL" using assms(3) by auto
    then show ?thesis
      using of_char_word_nonzero [of a]
      by (auto simp: 1 four_char_code_short simp del: NUL_def)
  next
    case 2
    then have "a \<noteq> NUL" "b \<noteq> NUL" using assms(3) by auto
    then show ?thesis
      using of_char_word_nonzero [of b]
      by (auto simp: 2 four_char_code_short bit_or_iff simp del: NUL_def)
  next
    case 3
    then have "a \<noteq> NUL" "b \<noteq> NUL" "c \<noteq> NUL" using assms(3) by auto
    then show ?thesis
      using of_char_word_nonzero [of c]
      by (auto simp: 3 four_char_code_short bit_or_iff simp del: NUL_def)
  qed
  then obtain i where i: "i < 8" "bit (four_char_code str) i"
    by blast
  have "i < 8 * (4 - length str)"
    using i(1) assms(2) by simp
  then have "push_bit (8 * (4 - length str)) (four_char_code str) \<noteq> four_char_code str"
    using i(2) by (rule push_bit_differs [rotated])
  then show ?thesis
    by (simp add: eq)
qed

lemma strtoul_empty:
  "strtoul' (key_buffer []) 4 16 = Some (four_char_code [])"
  using strtoul_key_buffer [of "[]"] by (simp add: four_char_code_short)

section \<open>The properties\<close>

text \<open>
  Claim C1, as far as the code supports it. The write of the tool, \<open>SMCWriteKey\<close>,
  first runs a whole \<open>SMCReadKey\<close>: the key-info query and a read of the bytes. When
  the key-info query succeeds and declares a size different from the caller's
  \<open>dataSize\<close>, it returns a failure status (\<open>kIOReturnError\<close> when the read of the
  bytes succeeds, the status of that read otherwise) and the calls it makes are exactly
  these two: no write command is issued. The key buffer is assumed to hold at least
  four characters and a terminator.
\<close>

theorem SMCWriteKey_size_mismatch:
  assumes "strtoul' (SMCVal_t.key writeVal) 4 16 = Some k"
    and "NUL \<in> set (SMCVal_t.key writeVal)"
  shows
  "let req1 = SMCKeyData_zero\<lparr>SMCKeyData_t.key := k,
                               SMCKeyData_t.data8 := char_of (unat SMC_CMD_READ_KEYINFO)\<rparr>;
       c1 = CallStructMethod (g_conn s) KERNEL_INDEX_SMC req1;
       (res1, rep1) = IOConnectCallStructMethod K (tool_trace s) (g_conn s) KERNEL_INDEX_SMC req1;
       declared = SMCKeyData_keyInfo_t.dataSize (SMCKeyData_t.keyInfo rep1);
       req2 = SMCKeyData_zero\<lparr>SMCKeyData_t.key := k,
                SMCKeyData_t.keyInfo := (SMCKeyData_t.keyInfo SMCKeyData_zero)
                   \<lparr>SMCKeyData_keyInfo_t.dataSize := declared\<rparr>,
                SMCKeyData_t.data8 := char_of (unat SMC_CMD_READ_BYTES)\<rparr>;
       c2 = CallStructMethod (g_conn s) KERNEL_INDEX_SMC req2;
       (res2, rep2) = IOConnectCallStructMethod K (tool_trace s @ [c1]) (g_conn s) KERNEL_INDEX_SMC req2
   in res1 = kIOReturnSuccess \<longrightarrow> declared \<noteq> SMCVal_t.dataSize writeVal \<longrightarrow>
        SMCWriteKey K writeVal s =
          (Some (if res2 = kIOReturnSuccess then kIOReturnError else res2),
           s\<lparr>tool_trace := tool_trace s @ [c1, c2]\<rparr>) \<and>
        (if res2 = kIOReturnSuccess then kIOReturnError else res2) \<noteq> kIOReturnSuccess"
proof -
  obtain res1 rep1 where 1: "IOConnectCallStructMethod K (tool_trace s) (g_conn s) 2
              (SMCKeyData_zero\<lparr>SMCKeyData_t.key := k, SMCKeyData_t.data8 := char_of (9 :: nat)\<rparr>) = (res1, rep1)"
    by (rule prod.exhaust)
  obtain res2 rep2 where 2: "IOConnectCallStructMethod K
              (tool_trace s @ [CallStructMethod (g_conn s) 2
                 (SMCKeyData_zero\<lparr>SMCKeyData_t.key := k, SMCKeyData_t.data8 := char_of (9 :: nat)\<rparr>)])
              (g_conn s) 2
              (SMCKeyData_zero\<lparr>SMCKeyData_t.key := k,
                 SMCKeyData_t.keyInfo := (SMCKeyData_t.keyInfo SMCKeyData_zero)
                   \<lparr>SMCKeyData_keyInfo_t.dataSize := SMCKeyData_keyInfo_t.dataSize (SMCKeyData_t.keyInfo rep1)\<rparr>,
                 SMCKeyData_t.data8 := char_of (5 :: nat)\<rparr>) = (res2, rep2)"
    by (rule prod.exhaust)
  obtain val where val: "SMCReadKey K (SMCVal_t.key writeVal) s =
           (if res1 \<noteq> 0
            then (Some (res1, val),
                  s\<lparr>tool_trace := tool_trace s @ [CallStructMethod (g_conn s) 2
                     (SMCKeyData_zero\<lparr>SMCKeyData_t.key := k, SMCKeyData_t.data8 := char_of (9 :: nat)\<rparr>)]\<rparr>)
            else (Some (res2, val),
                  s\<lparr>tool_trace := tool_trace s @ [CallStructMethod (g_conn s) 2
                     (SMCKeyData_zero\<lparr>SMCKeyData_t.key := k, SMCKeyData_t.data8 := char_of (9 :: nat)\<rparr>),
                     CallStructMethod (g_conn s) 2
                     (SMCKeyData_zero\<lparr>SMCKeyData_t.key := k,
                        SMCKeyData_t.keyInfo := (SMCKeyData_t.keyInfo SMCKeyData_zero)
                          \<lparr>SMCKeyData_keyInfo_t.dataSize := SMCKeyData_keyInfo_t.dataSize (SMCKeyData_t.keyInfo rep1)\<rparr>,
                        SMCKeyData_t.data8 := char_of (5 :: nat)\<rparr>)]\<rparr>))"
    and sz: "res1 = 0 \<longrightarrow> SMCVal_t.dataSize val = SMCKeyData_keyInfo_t.dataSize (SMCKeyData_t.keyInfo rep1)"
    using SMCReadKey_eq [OF assms 1 2] by blast
  show ?thesis
    using sz by (simp add: Let_def 1 2 SMCWriteKey_def val)
qed

theorem SMCWriteKey_size_mismatch_witness:
  "strtoul' (SMCVal_t.key mismatched_write) 4 16 = Some 0x43483042 \<and>
   NUL \<in> set (SMCVal_t.key mismatched_write) \<and>
   SMCWriteKey (tool_stub 1 (replicate 32 0)) mismatched_write tool_opened =
     (Some kIOReturnError,
      \<lparr>g_conn = 7, tool_trace =
         [CallStructMethod 7 2 (SMCKeyData_zero\<lparr>SMCKeyData_t.key := 0x43483042,
             SMCKeyData_t.data8 := char_of (unat SMC_CMD_READ_KEYINFO)\<rparr>),
          CallStructMethod 7 2 (SMCKeyData_zero\<lparr>SMCKeyData_t.key := 0x43483042,
             SMCKeyData_t.keyInfo := (SMCKeyData_t.keyInfo SMCKeyData_zero)
                \<lparr>SMCKeyData_keyInfo_t.dataSize := 1\<rparr>,
             SMCKeyData_t.data8 := char_of (unat SMC_CMD_READ_BYTES)\<rparr>)]\<rparr>)"
proof -
  have h1: "strtoul' (SMCVal_t.key mismatched_write) 4 16 = Some 0x43483042"
    by (simp add: mismatched_write_def strtoul_CH0B)
  have h2: "NUL \<in> set (SMCVal_t.key mismatched_write)"
    by (simp add: mismatched_write_def key_buffer_def)
  have sz: "SMCVal_t.dataSize mismatched_write = 2"
    by (simp add: mismatched_write_def)
  show ?thesis
    using h1 h2 SMCWriteKey_size_mismatch [OF h1 h2, where s = tool_opened
        and K = "tool_stub 1 (replicate 32 0)"]
    by (simp add: sz tool_stub_def tool_opened_def Let_def)
qed

text \<open>
  The claim as stated fails. With a stub that declares one byte for \<open>CH0B\<close> and a
  caller passing two bytes, \<open>SMCWriteKey\<close> refuses the write but has made two calls,
  the key-info query and a read of the bytes; and \<open>smc_write_key\<close> of \<open>smc.c\<close>,
  which has no comparison of the sizes, issues the write command and returns 0.
\<close>

theorem write_size_mismatch_counterexample:
  "SMCVal_t.dataSize mismatched_write = 2 \<and>
   SMCWriteKey (tool_stub 1 (replicate 32 0)) mismatched_write tool_opened =
     (Some kIOReturnError,
      tool_opened\<lparr>tool_trace :=
         [CallStructMethod 7 2 (SMCKeyData_zero\<lparr>SMCKeyData_t.key := 0x43483042,
             SMCKeyData_t.data8 := char_of (unat SMC_CMD_READ_KEYINFO)\<rparr>),
          CallStructMethod 7 2 (SMCKeyData_zero\<lparr>SMCKeyData_t.key := 0x43483042,
             SMCKeyData_t.keyInfo := (SMCKeyData_t.keyInfo SMCKeyData_zero)
                \<lparr>SMCKeyData_keyInfo_t.dataSize := 1\<rparr>,
             SMCKeyData_t.data8 := char_of (unat SMC_CMD_READ_BYTES)\<rparr>)]\<rparr>) \<and>
   smc_write_key (stub_kernel reg_fail KERN_SUCCESS 1 KERN_SUCCESS (replicate 32 0) write_ok)
       ''CH0B'' [2, 0] 2 opened =
     (Some 0,
      opened\<lparr>trace :=
         [CallStructMethod 7 2 (SMCParamStruct_zero\<lparr>SMCParamStruct.key := 0x43483042,
             SMCParamStruct.data8 := SMC_CMD_READ_KEYINFO\<rparr>),
          CallStructMethod 7 2 (SMCParamStruct_zero\<lparr>SMCParamStruct.key := 0x43483042,
             SMCParamStruct.keyInfo := \<lparr>SMCKeyInfoData.dataSize = 1, SMCKeyInfoData.dataType = 0,
                 SMCKeyInfoData.dataAttributes = 0\<rparr>,
             SMCParamStruct.data8 := SMC_CMD_WRITE_BYTES,
             SMCParamStruct.bytes := [2, 0] @ replicate 30 0\<rparr>)]\<rparr>)"
proof -
  have a: "SMCVal_t.dataSize mismatched_write = 2"
    by (simp add: mismatched_write_def)
  have k: "SMCVal_t.key mismatched_write = key_buffer ''CH0B''"
    by (simp add: mismatched_write_def)
  have nul: "snprintf_s (SMCVal_t.key SMCVal_zero) 5 (key_buffer ''CH0B'') = Some (key_buffer ''CH0B'')"
    by (simp add: snprintf_s_def SMCVal_zero_def key_buffer_def Let_def eval_nat_numeral)
  have dt: "\<exists>dt. ultostr' (SMCVal_t.dataType SMCVal_zero) 0 = Some dt"
    by (rule ultostr_zero_buffer)
  then obtain dt where dt: "ultostr' (SMCVal_t.dataType SMCVal_zero) 0 = Some dt" ..
  have b: "SMCWriteKey (tool_stub 1 (replicate 32 0)) mismatched_write tool_opened =
     (Some kIOReturnError,
      tool_opened\<lparr>tool_trace :=
         [CallStructMethod 7 2 (SMCKeyData_zero\<lparr>SMCKeyData_t.key := 0x43483042,
             SMCKeyData_t.data8 := char_of (unat SMC_CMD_READ_KEYINFO)\<rparr>),
          CallStructMethod 7 2 (SMCKeyData_zero\<lparr>SMCKeyData_t.key := 0x43483042,
             SMCKeyData_t.keyInfo := (SMCKeyData_t.keyInfo SMCKeyData_zero)
                \<lparr>SMCKeyData_keyInfo_t.dataSize := 1\<rparr>,
             SMCKeyData_t.data8 := char_of (unat SMC_CMD_READ_BYTES)\<rparr>)]\<rparr>)"
    by (simp add: SMCWriteKey_def SMCReadKey_def SMCCall_def a k strtoul_CH0B nul dt Let_def
        tool_stub_def tool_opened_def)
  have c: "smc_write_key (stub_kernel reg_fail KERN_SUCCESS 1 KERN_SUCCESS (replicate 32 0) write_ok)
       ''CH0B'' [2, 0] 2 opened =
     (Some 0,
      opened\<lparr>trace :=
         [CallStructMethod 7 2 (SMCParamStruct_zero\<lparr>SMCParamStruct.key := 0x43483042,
             SMCParamStruct.data8 := SMC_CMD_READ_KEYINFO\<rparr>),
          CallStructMethod 7 2 (SMCParamStruct_zero\<lparr>SMCParamStruct.key := 0x43483042,
             SMCParamStruct.keyInfo := \<lparr>SMCKeyInfoData.dataSize = 1, SMCKeyInfoData.dataType = 0,
                 SMCKeyInfoData.dataAttributes = 0\<rparr>,
             SMCParamStruct.data8 := SMC_CMD_WRITE_BYTES,
             SMCParamStruct.bytes := [2, 0] @ replicate 30 0\<rparr>)]\<rparr>)"
    by (simp add: smc_write_key_def smc_read_key_info_def smc_call_def memcpy_def Let_def
        stub_kernel_def opened_def four_char_code_literals SMCParamStruct_zero_def
        write_ok_def)
  from a b c show ?thesis by (simp only: simp_thms)
qed

text \<open>
  Claim C2, amended. For a string with no NUL among its first four characters, held in
  the tool's zero-padded key buffer, \<open>_strtoul(s, 4, 16)\<close> is the value of
  \<open>four_char_code(s)\<close> shifted left by eight bits for every character missing to four.
  So for every string of at least four characters the two encodings agree, and both are
  the first four bytes, most significant first; they agree on the empty string too,
  where both are 0. For a string of one, two or three characters they differ:
  \<open>four_char_code\<close> stops at the terminator and keeps the bytes right-aligned, while
  \<open>_strtoul\<close> reads four bytes of the buffer and has them left-aligned.
\<close>

theorem four_char_code_matches_strtoul:
  "NUL \<notin> set (take 4 str) \<longrightarrow>
     strtoul' (key_buffer str) 4 16 =
       Some (push_bit (8 * (4 - length str)) (four_char_code str)) \<and>
     (4 \<le> length str \<longrightarrow>
        strtoul' (key_buffer str) 4 16 = Some (four_char_code str) \<and>
        four_char_code str = be32 (str ! 0) (str ! 1) (str ! 2) (str ! 3)) \<and>
     (str = [] \<longrightarrow> strtoul' (key_buffer str) 4 16 = Some (four_char_code str)) \<and>
     (1 \<le> length str \<and> length str < 4 \<longrightarrow>
        strtoul' (key_buffer str) 4 16 \<noteq> Some (four_char_code str))"
proof (intro impI conjI)
  assume n: "NUL \<notin> set (take 4 str)"
  show "strtoul' (key_buffer str) 4 16 =
       Some (push_bit (8 * (4 - length str)) (four_char_code str))"
    using n by (rule strtoul_key_buffer)
  show "strtoul' (key_buffer str) 4 16 = Some (four_char_code str)" if "str = []"
    using that strtoul_empty by simp
  show "strtoul' (key_buffer str) 4 16 \<noteq> Some (four_char_code str)"
    if "1 \<le> length str \<and> length str < 4"
  proof -
    have "NUL \<notin> set str"
      using n that by simp
    with that show ?thesis
      by (simp add: strtoul_differs_short del: NUL_def)
  qed
  assume l: "4 \<le> length str"
  then show "strtoul' (key_buffer str) 4 16 = Some (four_char_code str)"
    using strtoul_key_buffer [OF n] by simp
  from l obtain a b c d r where str: "str = a # b # c # d # r"
    by (auto simp: Suc_le_length_iff eval_nat_numeral)
  then have "a \<noteq> NUL" "b \<noteq> NUL" "c \<noteq> NUL" "d \<noteq> NUL"
    using n by auto
  then show "four_char_code str = be32 (str ! 0) (str ! 1) (str ! 2) (str ! 3)"
    by (simp add: str four_char_code_4 del: NUL_def)
qed

theorem four_char_code_matches_strtoul_witness:
  "NUL \<notin> set (take 4 ''CH0B'') \<and> 4 \<le> length ''CH0B'' \<and>
   strtoul' (key_buffer ''CH0B'') 4 16 = Some (four_char_code ''CH0B'') \<and>
   four_char_code ''CH0B'' = be32 CHR ''C'' CHR ''H'' CHR ''0'' CHR ''B'' \<and>
   NUL \<notin> set (take 4 ''AB'') \<and> 1 \<le> length ''AB'' \<and> length ''AB'' < 4 \<and>
   strtoul' (key_buffer ''AB'') 4 16 = Some (push_bit 16 (four_char_code ''AB'')) \<and>
   strtoul' (key_buffer ''AB'') 4 16 \<noteq> Some (four_char_code ''AB'') \<and>
   NUL \<notin> set (take 4 []) \<and>
   strtoul' (key_buffer []) 4 16 = Some (four_char_code [])"
  using four_char_code_matches_strtoul [of "''CH0B''"] four_char_code_matches_strtoul [of "''AB''"]
    four_char_code_matches_strtoul [of "[]"]
  by (auto simp: four_char_code_short)

text \<open>
  The claim as stated fails for the two-character string \<open>AB\<close>: \<open>four_char_code\<close>
  gives \<open>0x4142\<close>, \<open>_strtoul\<close> on the key buffer gives \<open>0x41420000\<close>, and on
  the bare three-byte array \<open>_strtoul\<close> reads past the terminator.
\<close>

theorem four_char_code_differs_from_strtoul:
  "four_char_code ''AB'' = 0x4142 \<and>
   strtoul' (key_buffer ''AB'') 4 16 = Some 0x41420000 \<and>
   strtoul' (''AB'' @ [NUL]) 4 16 = None \<and>
   strtoul' (key_buffer ''AB'') 4 16 \<noteq> Some (four_char_code ''AB'')"
  by (simp add: four_char_code_def four_char_code_loop.simps char_at_def key_buffer_def
      strtoul'_def strtoul_loop.simps)

text \<open>
  Claim C3. Whatever the kernel answers, \<open>smc_disable_charging\<close> runs its four
  attempts one after the other, each from the state the previous one left: the property
  writes \<open>ChargeInhibit\<close> and \<open>ChargeRate\<close>, then the key writes \<open>CH0B\<close> and
  \<open>CH0I\<close>. Each attempt adds its first external call to the trace, in this order, and
  the result is 0 exactly when one of the four attempts returned 0, and -1 otherwise.
  (\<open>smc_disable_charging_sixteen\<close> runs the sixteen combinations on a stub.)
\<close>

theorem smc_disable_charging_any:
  "\<exists>r1 s1 t1 r2 s2 t2 r3 s3 t3 r4 s4 t4.
     set_battery_property K ''ChargeInhibit'' kCFBooleanTrue s = (r1, s1) \<and>
     trace s1 = trace s @ GetMatchingService ''AppleSmartBattery'' # t1 \<and>
     set_battery_property K ''ChargeRate'' (CFNumberSInt32 0) s1 = (r2, s2) \<and>
     trace s2 = trace s1 @ GetMatchingService ''AppleSmartBattery'' # t2 \<and>
     smc_write_key K ''CH0B'' [0x02] 1 s2 = (Some r3, s3) \<and>
     trace s3 = trace s2 @ CallStructMethod (g_smc_conn s) KERNEL_INDEX_SMC
        (SMCParamStruct_zero\<lparr>SMCParamStruct.key := four_char_code ''CH0B'',
                              SMCParamStruct.data8 := SMC_CMD_READ_KEYINFO\<rparr>) # t3 \<and>
     smc_write_key K ''CH0I'' [0x01] 1 s3 = (Some r4, s4) \<and>
     trace s4 = trace s3 @ CallStructMethod (g_smc_conn s) KERNEL_INDEX_SMC
        (SMCParamStruct_zero\<lparr>SMCParamStruct.key := four_char_code ''CH0I'',
                              SMCParamStruct.data8 := SMC_CMD_READ_KEYINFO\<rparr>) # t4 \<and>
     smc_disable_charging K s =
       (Some (if r1 = 0 \<or> r2 = 0 \<or> r3 = 0 \<or> r4 = 0 then 0 else - 1), s4)"
proof -
  obtain r1 s1 t1 where 1: "set_battery_property K ''ChargeInhibit'' kCFBooleanTrue s = (r1, s1)"
      "trace s1 = trace s @ GetMatchingService ''AppleSmartBattery'' # t1"
      "g_smc_conn s1 = g_smc_conn s"
    using set_battery_property_trace by blast
  obtain r2 s2 t2 where 2: "set_battery_property K ''ChargeRate'' (CFNumberSInt32 0) s1 = (r2, s2)"
      "trace s2 = trace s1 @ GetMatchingService ''AppleSmartBattery'' # t2"
      "g_smc_conn s2 = g_smc_conn s1"
    using set_battery_property_trace by blast
  obtain r3 s3 t3 where 3: "smc_write_key K ''CH0B'' [0x02] 1 s2 = (Some r3, s3)"
      "trace s3 = trace s2 @ CallStructMethod (g_smc_conn s2) KERNEL_INDEX_SMC
        (SMCParamStruct_zero\<lparr>SMCParamStruct.key := four_char_code ''CH0B'',
                              SMCParamStruct.data8 := SMC_CMD_READ_KEYINFO\<rparr>) # t3"
      "g_smc_conn s3 = g_smc_conn s2"
    using smc_write_key_one_byte by blast
  obtain r4 s4 t4 where 4: "smc_write_key K ''CH0I'' [0x01] 1 s3 = (Some r4, s4)"
      "trace s4 = trace s3 @ CallStructMethod (g_smc_conn s3) KERNEL_INDEX_SMC
        (SMCParamStruct_zero\<lparr>SMCParamStruct.key := four_char_code ''CH0I'',
                              SMCParamStruct.data8 := SMC_CMD_READ_KEYINFO\<rparr>) # t4"
      "g_smc_conn s4 = g_smc_conn s3"
    using smc_write_key_one_byte by blast
  have "smc_disable_charging K s =
       (Some (if r1 = 0 \<or> r2 = 0 \<or> r3 = 0 \<or> r4 = 0 then 0 else - 1), s4)"
    using 1(1) 2(1) 3(1) 4(1) by (simp add: smc_disable_charging_def)
  with 1 2 3 4 show ?thesis
    by (metis (no_types, lifting))
qed

theorem smc_disable_charging_any_witness:
  "fst (smc_disable_charging
     (stub_kernel (reg_stub False False) KERN_SUCCESS 1 KERN_SUCCESS (replicate 32 0)
        (write_stub True False)) opened) = Some 0 \<and>
   fst (smc_disable_charging
     (stub_kernel (reg_stub False False) KERN_SUCCESS 1 KERN_SUCCESS (replicate 32 0)
        (write_stub False False)) opened) = Some (- 1)"
  using smc_disable_charging_any [where s = opened
      and K = "stub_kernel (reg_stub False False) KERN_SUCCESS 1 KERN_SUCCESS (replicate 32 0)
        (write_stub True False)"]
    smc_disable_charging_any [where s = opened
      and K = "stub_kernel (reg_stub False False) KERN_SUCCESS 1 KERN_SUCCESS (replicate 32 0)
        (write_stub False False)"]
  by (auto simp: stub_kernel_def opened_def Let_def reg_stub_def write_stub_def
       set_battery_property_eq smc_write_key_def smc_read_key_info_def smc_call_def memcpy_def
       bytes_zero four_char_code_literals)

text \<open>
  Claim C4. \<open>smc_set_bclm\<close> first attempts the property write \<open>ChargeCapacity\<close>,
  which makes registry calls only. If that attempt returns 0, the operation returns 0
  in the state the attempt left: no SMC call. Otherwise the operation is one
  \<open>smc_write_key\<close> of key \<open>BCLM\<close> with the single byte \<open>percentage\<close>, whose
  result is the result of the operation: the key-info query, then, if it succeeded, one
  write command whose payload is the percentage byte followed by zeros.
\<close>

theorem smc_set_bclm_fallback:
  "let cfVal = CFNumberSInt32 (ucast percentage);
       service = IOServiceGetMatchingService K (trace s) ''AppleSmartBattery'';
       (r, s1) = set_battery_property K ''ChargeCapacity'' cfVal s;
       req1 = SMCParamStruct_zero\<lparr>SMCParamStruct.key := four_char_code ''BCLM'',
                                   SMCParamStruct.data8 := SMC_CMD_READ_KEYINFO\<rparr>;
       c1 = CallStructMethod (g_smc_conn s) KERNEL_INDEX_SMC req1;
       (res1, rep1) = IOConnectCallStructMethod K (trace s1) (g_smc_conn s) KERNEL_INDEX_SMC req1;
       req2 = SMCParamStruct_zero\<lparr>SMCParamStruct.key := four_char_code ''BCLM'',
                                   SMCParamStruct.keyInfo := SMCParamStruct.keyInfo rep1,
                                   SMCParamStruct.data8 := SMC_CMD_WRITE_BYTES,
                                   SMCParamStruct.bytes := percentage # replicate 31 0\<rparr>;
       c2 = CallStructMethod (g_smc_conn s) KERNEL_INDEX_SMC req2;
       (res2, rep2) = IOConnectCallStructMethod K (trace s1 @ [c1]) (g_smc_conn s) KERNEL_INDEX_SMC req2
   in (trace s1 = trace s @ [GetMatchingService ''AppleSmartBattery''] \<or>
       trace s1 = trace s @ [GetMatchingService ''AppleSmartBattery'',
                             SetCFProperty service ''ChargeCapacity'' cfVal,
                             ObjectRelease service]) \<and>
      (r = 0 \<longrightarrow> smc_set_bclm K percentage s = (Some 0, s1)) \<and>
      (r \<noteq> 0 \<longrightarrow>
         smc_set_bclm K percentage s = smc_write_key K ''BCLM'' [percentage] 1 s1 \<and>
         smc_write_key K ''BCLM'' [percentage] 1 s1 =
           (if res1 \<noteq> KERN_SUCCESS then (Some (- 1), s1\<lparr>trace := trace s1 @ [c1]\<rparr>)
            else (Some (if res2 \<noteq> KERN_SUCCESS then - 1 else 0),
                  s1\<lparr>trace := trace s1 @ [c1, c2]\<rparr>)))"
proof -
  obtain r s1 where sbp: "set_battery_property K ''ChargeCapacity'' (CFNumberSInt32 (ucast percentage)) s = (r, s1)"
    by (rule prod.exhaust)
  have conn: "g_smc_conn s1 = g_smc_conn s"
    using set_battery_property_trace [of K "''ChargeCapacity''" "CFNumberSInt32 (ucast percentage)" s] sbp
    by auto
  have tr: "trace s1 = trace s @ [GetMatchingService ''AppleSmartBattery''] \<or>
       trace s1 = trace s @ [GetMatchingService ''AppleSmartBattery'',
          SetCFProperty (IOServiceGetMatchingService K (trace s) ''AppleSmartBattery'')
             ''ChargeCapacity'' (CFNumberSInt32 (ucast percentage)),
          ObjectRelease (IOServiceGetMatchingService K (trace s) ''AppleSmartBattery'')]"
    using sbp by (auto simp: set_battery_property_eq Let_def split: if_splits)
  have m: "(1 :: nat) = min (unat (1 :: 32 word)) 32"
    by simp
  obtain res1 rep1 where 1: "IOConnectCallStructMethod K (trace s1) (g_smc_conn s1) 2 
            (SMCParamStruct_zero\<lparr>SMCParamStruct.key := four_char_code ''BCLM'', SMCParamStruct.data8 := 9\<rparr>) = (res1, rep1)"
    by (rule prod.exhaust)
  obtain res2 rep2 where 2: "IOConnectCallStructMethod K (trace s1 @ [CallStructMethod (g_smc_conn s1) 2 
            (SMCParamStruct_zero\<lparr>SMCParamStruct.key := four_char_code ''BCLM'', SMCParamStruct.data8 := 9\<rparr>)])
           (g_smc_conn s1) 2
            (SMCParamStruct_zero\<lparr>SMCParamStruct.key := four_char_code ''BCLM'', 
               SMCParamStruct.keyInfo := SMCParamStruct.keyInfo rep1, SMCParamStruct.data8 := 6,
               SMCParamStruct.bytes := take 1 [percentage] @ replicate (32 - 1) 0\<rparr>) = (res2, rep2)"
    by (rule prod.exhaust)
  have w: "smc_write_key K ''BCLM'' [percentage] 1 s1 =
      (if res1 \<noteq> KERN_SUCCESS
       then (Some (- 1), s1\<lparr>trace := trace s1 @ [CallStructMethod (g_smc_conn s1) 2 
            (SMCParamStruct_zero\<lparr>SMCParamStruct.key := four_char_code ''BCLM'', SMCParamStruct.data8 := 9\<rparr>)]\<rparr>)
       else (Some (if res2 \<noteq> KERN_SUCCESS then - 1 else 0),
             s1\<lparr>trace := trace s1 @ [CallStructMethod (g_smc_conn s1) 2 
            (SMCParamStruct_zero\<lparr>SMCParamStruct.key := four_char_code ''BCLM'', SMCParamStruct.data8 := 9\<rparr>),
              CallStructMethod (g_smc_conn s1) 2
            (SMCParamStruct_zero\<lparr>SMCParamStruct.key := four_char_code ''BCLM'', 
               SMCParamStruct.keyInfo := SMCParamStruct.keyInfo rep1, SMCParamStruct.data8 := 6,
               SMCParamStruct.bytes := percentage # replicate 31 0\<rparr>)]\<rparr>))"
    by (simp add: smc_write_key_eq [OF m 1 2])
  have b: "smc_set_bclm K percentage s =
      (if r = 0 then (Some 0, s1) else smc_write_key K ''BCLM'' [percentage] 1 s1)"
    by (simp add: smc_set_bclm_def sbp)
  show ?thesis
    using tr 1 2
    by (simp add: Let_def sbp conn b w)
qed

theorem smc_set_bclm_fallback_witness:
  "smc_set_bclm (stub_kernel reg_fail KERN_SUCCESS 1 KERN_SUCCESS (replicate 32 0) write_ok)
      50 opened =
     (Some 0, opened\<lparr>trace :=
        [GetMatchingService ''AppleSmartBattery'',
         SetCFProperty 1 ''ChargeCapacity'' (CFNumberSInt32 50),
         ObjectRelease 1,
         CallStructMethod 7 2
           (SMCParamStruct_zero\<lparr>SMCParamStruct.key := four_char_code ''BCLM'',
                                 SMCParamStruct.data8 := SMC_CMD_READ_KEYINFO\<rparr>),
         CallStructMethod 7 2
           (SMCParamStruct_zero\<lparr>SMCParamStruct.key := four_char_code ''BCLM'',
              SMCParamStruct.keyInfo := \<lparr>SMCKeyInfoData.dataSize = 1, SMCKeyInfoData.dataType = 0,
                 SMCKeyInfoData.dataAttributes = 0\<rparr>,
              SMCParamStruct.data8 := SMC_CMD_WRITE_BYTES,
              SMCParamStruct.bytes := 50 # replicate 31 0\<rparr>)]\<rparr>) \<and>
   smc_set_bclm (stub_kernel reg_ok KERN_SUCCESS 1 KERN_SUCCESS (replicate 32 0) write_ok)
      50 opened =
     (Some 0, opened\<lparr>trace :=
        [GetMatchingService ''AppleSmartBattery'',
         SetCFProperty 1 ''ChargeCapacity'' (CFNumberSInt32 50),
         ObjectRelease 1]\<rparr>)"
  using smc_set_bclm_fallback [where s = opened and percentage = 50
      and K = "stub_kernel reg_fail KERN_SUCCESS 1 KERN_SUCCESS (replicate 32 0) write_ok"]
    smc_set_bclm_fallback [where s = opened and percentage = 50
      and K = "stub_kernel reg_ok KERN_SUCCESS 1 KERN_SUCCESS (replicate 32 0) write_ok"]
  by (simp add: reg_fail_def reg_ok_def write_fail_def write_ok_def stub_kernel_def opened_def Let_def set_battery_property_eq SMCParamStruct_zero_def)


text \<open>
  Claim C5. For every string of four characters, stored with its terminator,
  \<open>_strtoul(s, 4, 16)\<close> returns a value from which \<open>_ultostr\<close> writes the same four
  characters and a terminator into any buffer of five characters.
\<close>

theorem ultostr_strtoul_roundtrip:
  assumes "length str = 4" and "length buf = 5"
  shows "\<exists>v. strtoul' (str @ [NUL]) 4 16 = Some v \<and> ultostr' buf v = Some (str @ [NUL])"
proof -
  obtain a b c d where str: "str = [a, b, c, d]"
    using assms(1) by (auto simp: length_Suc_conv eval_nat_numeral)
  have "strtoul' (str @ [NUL]) 4 16 = Some (be32 a b c d)"
    by (simp add: str strtoul_4 del: NUL_def)
  moreover have "ultostr' buf (be32 a b c d) = Some (str @ [NUL])"
    by (simp add: str ultostr_be32 [OF assms(2)] del: NUL_def)
  ultimately show ?thesis
    by blast
qed

theorem ultostr_strtoul_roundtrip_witness:
  "length ''CH0B'' = 4 \<and> length (replicate 5 NUL) = 5 \<and>
   strtoul' (''CH0B'' @ [NUL]) 4 16 = Some 0x43483042 \<and>
   ultostr' (replicate 5 NUL) 0x43483042 = Some (''CH0B'' @ [NUL])"
proof -
  have h1: "length ''CH0B'' = 4" by simp
  have h2: "length (replicate 5 NUL) = 5" by simp
  have v: "strtoul' (''CH0B'' @ [NUL]) 4 16 = Some 0x43483042"
    by (simp add: strtoul'_def strtoul_loop.simps)
  show ?thesis
    using ultostr_strtoul_roundtrip [OF h1 h2] v h2 by auto
qed

text \<open>
  Claim C6. Let \<open>n\<close> be the minimum of 32 and the size that the key-info reply
  declares. \<open>smc_read_key\<close> returns 0 with buffer \<open>out'\<close> and size \<open>size'\<close>
  exactly when both transport calls succeed, \<open>n\<close> bytes fit in the payload and in the
  output buffer, \<open>out'\<close> is the output buffer with its first \<open>n\<close> bytes replaced by
  the first \<open>n\<close> bytes of the payload, and \<open>size'\<close> is \<open>n\<close>; and \<open>n\<close> is at most 32.
\<close>

theorem smc_read_key_clamp:
  "let k = four_char_code key_name;
       req1 = SMCParamStruct_zero\<lparr>SMCParamStruct.key := k,
                                   SMCParamStruct.data8 := SMC_CMD_READ_KEYINFO\<rparr>;
       (res1, rep1) = IOConnectCallStructMethod K (trace s) (g_smc_conn s) KERNEL_INDEX_SMC req1;
       info = SMCParamStruct.keyInfo rep1;
       req2 = SMCParamStruct_zero\<lparr>SMCParamStruct.key := k, SMCParamStruct.keyInfo := info,
                                   SMCParamStruct.data8 := SMC_CMD_READ_BYTES\<rparr>;
       (res2, rep2) = IOConnectCallStructMethod K
          (trace s @ [CallStructMethod (g_smc_conn s) KERNEL_INDEX_SMC req1])
          (g_smc_conn s) KERNEL_INDEX_SMC req2;
       n = min (unat (SMCKeyInfoData.dataSize info)) 32
   in n \<le> 32 \<and>
      (fst (smc_read_key K key_name out_bytes out_size s) = Some (0, out', size') \<longleftrightarrow>
         res1 = KERN_SUCCESS \<and> res2 = KERN_SUCCESS \<and>
         n \<le> length (SMCParamStruct.bytes rep2) \<and> n \<le> length out_bytes \<and>
         out' = take n (SMCParamStruct.bytes rep2) @ drop n out_bytes \<and>
         size' = of_nat n)"
proof -
  obtain res1 rep1 where 1: "IOConnectCallStructMethod K (trace s) (g_smc_conn s) 2 
            (SMCParamStruct_zero\<lparr>SMCParamStruct.key := four_char_code key_name, SMCParamStruct.data8 := 9\<rparr>) = (res1, rep1)"
    by (rule prod.exhaust)
  obtain res2 rep2 where 2: "IOConnectCallStructMethod K (trace s @ [CallStructMethod (g_smc_conn s) 2 
            (SMCParamStruct_zero\<lparr>SMCParamStruct.key := four_char_code key_name, SMCParamStruct.data8 := 9\<rparr>)])
           (g_smc_conn s) 2
            (SMCParamStruct_zero\<lparr>SMCParamStruct.key := four_char_code key_name, 
               SMCParamStruct.keyInfo := SMCParamStruct.keyInfo rep1, SMCParamStruct.data8 := 5\<rparr>) = (res2, rep2)"
    by (rule prod.exhaust)
  show ?thesis
    by (auto simp: Let_def 1 2 smc_read_key_eq [OF 1 2] memcpy_def)
qed

theorem smc_read_key_clamp_witness:
  "fst (smc_read_key (stub_kernel reg_fail KERN_SUCCESS 40 KERN_SUCCESS (replicate 32 0xAB) write_fail)
         ''BCLM'' (replicate 40 0) 0 opened) =
     Some (0, replicate 32 0xAB @ replicate 8 0, 32)"
  using smc_read_key_clamp [where key_name = "''BCLM''" and s = opened
      and K = "stub_kernel reg_fail KERN_SUCCESS 40 KERN_SUCCESS (replicate 32 0xAB) write_fail"
      and out_bytes = "replicate 40 0" and out_size = 0
      and out' = "replicate 32 0xAB @ replicate 8 0" and size' = 32]
  by (simp add: reg_fail_def reg_ok_def write_fail_def write_ok_def stub_kernel_def opened_def Let_def)

text \<open>
  Claim C7. When both transport calls succeed and the key info declares size 0,
  \<open>smc_read_key\<close> returns 0, reports size 0 and leaves the output buffer as it was.
\<close>

theorem smc_read_key_size_zero:
  "let k = four_char_code key_name;
       req1 = SMCParamStruct_zero\<lparr>SMCParamStruct.key := k,
                                   SMCParamStruct.data8 := SMC_CMD_READ_KEYINFO\<rparr>;
       c1 = CallStructMethod (g_smc_conn s) KERNEL_INDEX_SMC req1;
       (res1, rep1) = IOConnectCallStructMethod K (trace s) (g_smc_conn s) KERNEL_INDEX_SMC req1;
       info = SMCParamStruct.keyInfo rep1;
       req2 = SMCParamStruct_zero\<lparr>SMCParamStruct.key := k, SMCParamStruct.keyInfo := info,
                                   SMCParamStruct.data8 := SMC_CMD_READ_BYTES\<rparr>;
       (res2, rep2) = IOConnectCallStructMethod K (trace s @ [c1]) (g_smc_conn s) KERNEL_INDEX_SMC req2
   in res1 = KERN_SUCCESS \<longrightarrow> res2 = KERN_SUCCESS \<longrightarrow> SMCKeyInfoData.dataSize info = 0 \<longrightarrow>
        fst (smc_read_key K key_name out_bytes out_size s) = Some (0, out_bytes, 0)"
proof -
  obtain res1 rep1 where 1: "IOConnectCallStructMethod K (trace s) (g_smc_conn s) 2 
            (SMCParamStruct_zero\<lparr>SMCParamStruct.key := four_char_code key_name, SMCParamStruct.data8 := 9\<rparr>) = (res1, rep1)"
    by (rule prod.exhaust)
  obtain res2 rep2 where 2: "IOConnectCallStructMethod K (trace s @ [CallStructMethod (g_smc_conn s) 2 
            (SMCParamStruct_zero\<lparr>SMCParamStruct.key := four_char_code key_name, SMCParamStruct.data8 := 9\<rparr>)])
           (g_smc_conn s) 2
            (SMCParamStruct_zero\<lparr>SMCParamStruct.key := four_char_code key_name, 
               SMCParamStruct.keyInfo := SMCParamStruct.keyInfo rep1, SMCParamStruct.data8 := 5\<rparr>) = (res2, rep2)"
    by (rule prod.exhaust)
  show ?thesis
    by (simp add: Let_def 1 2 smc_read_key_eq [OF 1 2] memcpy_def)
qed

theorem smc_read_key_size_zero_witness:
  "fst (smc_read_key (stub_kernel reg_fail KERN_SUCCESS 0 KERN_SUCCESS (replicate 32 0xAB) write_fail)
         ''BCLM'' [0x55] 7 opened) = Some (0, [0x55], 0)"
  using smc_read_key_size_zero [where key_name = "''BCLM''" and s = opened
      and K = "stub_kernel reg_fail KERN_SUCCESS 0 KERN_SUCCESS (replicate 32 0xAB) write_fail"
      and out_bytes = "[0x55]" and out_size = 7]
  by (simp add: reg_fail_def reg_ok_def write_fail_def write_ok_def stub_kernel_def opened_def Let_def)

text \<open>
  Claim C8. From any state, the first call that \<open>smc_read_key\<close> and \<open>smc_write_key\<close>
  make is the key-info query for their key. If that query fails, each returns -1 having
  made no other call, and the read leaves its output untouched. If it succeeds, the
  read request that follows carries the key info of this very reply.
\<close>

theorem key_info_first:
  "let req = SMCParamStruct_zero\<lparr>SMCParamStruct.key := four_char_code key_name,
                                  SMCParamStruct.data8 := SMC_CMD_READ_KEYINFO\<rparr>;
       c = CallStructMethod (g_smc_conn s) KERNEL_INDEX_SMC req;
       (res, rep) = IOConnectCallStructMethod K (trace s) (g_smc_conn s) KERNEL_INDEX_SMC req;
       (r, s1) = smc_read_key K key_name out_bytes out_size s;
       (w, s2) = smc_write_key K key_name src n s
   in (\<exists>t. trace s1 = trace s @ c # t) \<and>
      (\<exists>t. trace s2 = trace s @ c # t) \<and>
      (res \<noteq> KERN_SUCCESS \<longrightarrow>
         r = Some (- 1, out_bytes, out_size) \<and> trace s1 = trace s @ [c] \<and>
         w = Some (- 1) \<and> trace s2 = trace s @ [c]) \<and>
      (res = KERN_SUCCESS \<longrightarrow>
         trace s1 = trace s @ [c, CallStructMethod (g_smc_conn s) KERNEL_INDEX_SMC
           (SMCParamStruct_zero\<lparr>SMCParamStruct.key := four_char_code key_name,
              SMCParamStruct.keyInfo := SMCParamStruct.keyInfo rep,
              SMCParamStruct.data8 := SMC_CMD_READ_BYTES\<rparr>)])"
  by (auto simp: smc_read_key_def smc_write_key_def smc_read_key_info_def smc_call_def Let_def
      split: prod.splits option.splits if_splits)

theorem key_info_first_witness:
  "fst (smc_read_key (stub_kernel reg_fail 5 1 KERN_SUCCESS (replicate 32 0) write_ok)
      ''CH0B'' [0x55] 7 opened) = Some (- 1, [0x55], 7) \<and>
   trace (snd (smc_read_key (stub_kernel reg_fail 5 1 KERN_SUCCESS (replicate 32 0) write_ok)
      ''CH0B'' [0x55] 7 opened)) =
     [CallStructMethod 7 2
        (SMCParamStruct_zero\<lparr>SMCParamStruct.key := four_char_code ''CH0B'',
                              SMCParamStruct.data8 := SMC_CMD_READ_KEYINFO\<rparr>)] \<and>
   fst (smc_write_key (stub_kernel reg_fail 5 1 KERN_SUCCESS (replicate 32 0) write_ok)
      ''CH0B'' [0x02] 1 opened) = Some (- 1) \<and>
   trace (snd (smc_write_key (stub_kernel reg_fail 5 1 KERN_SUCCESS (replicate 32 0) write_ok)
      ''CH0B'' [0x02] 1 opened)) =
     [CallStructMethod 7 2
        (SMCParamStruct_zero\<lparr>SMCParamStruct.key := four_char_code ''CH0B'',
                              SMCParamStruct.data8 := SMC_CMD_READ_KEYINFO\<rparr>)]"
  using key_info_first [where key_name = "''CH0B''" and s = opened
      and K = "stub_kernel reg_fail 5 1 KERN_SUCCESS (replicate 32 0) write_ok"
      and out_bytes = "[0x55]" and out_size = 7 and src = "[0x02]" and n = 1]
  by (auto simp: reg_fail_def reg_ok_def write_fail_def write_ok_def stub_kernel_def opened_def Let_def split: prod.splits)

text \<open>
  Claim C9. \<open>smc_close\<close> is a total function of the state. With a zero handle it
  changes nothing and makes no call; with a non-zero handle it makes one release call;
  afterwards the handle is zero, so closing twice is the same as closing once.
\<close>

theorem smc_close_idempotent:
  "(g_smc_conn s = 0 \<longrightarrow> smc_close s = s) \<and>
   (g_smc_conn s \<noteq> 0 \<longrightarrow> trace (smc_close s) = trace s @ [ServiceClose (g_smc_conn s)]) \<and>
   g_smc_conn (smc_close s) = 0 \<and>
   smc_close (smc_close s) = smc_close s"
  by (simp add: smc_close_def)

theorem smc_close_idempotent_witness:
  "g_smc_conn (smc_close opened) = 0 \<and>
   smc_close (smc_close opened) = smc_close opened \<and>
   smc_close (smc_close opened) = \<lparr>g_smc_conn = 0, trace = [ServiceClose 7]\<rparr>"
  using smc_close_idempotent [of "smc_close opened"] smc_close_idempotent [of opened]
  by (simp add: opened_def smc_close_def)

text \<open>
  Claim C10. Whenever the read of \<open>BCLM\<close> inside \<open>smc_get_bclm\<close> returns 0, with
  whatever size, \<open>smc_get_bclm\<close> returns 0 with the same buffer, and the size is not
  part of its result. In particular, when both transport calls succeed and the declared
  size is 0, it returns 0 and the object at \<open>out_percentage\<close> is unchanged.
\<close>

theorem smc_get_bclm_discards_size:
  "let req1 = SMCParamStruct_zero\<lparr>SMCParamStruct.key := four_char_code ''BCLM'',
                                   SMCParamStruct.data8 := SMC_CMD_READ_KEYINFO\<rparr>;
       c1 = CallStructMethod (g_smc_conn s) KERNEL_INDEX_SMC req1;
       (res1, rep1) = IOConnectCallStructMethod K (trace s) (g_smc_conn s) KERNEL_INDEX_SMC req1;
       info = SMCParamStruct.keyInfo rep1;
       req2 = SMCParamStruct_zero\<lparr>SMCParamStruct.key := four_char_code ''BCLM'',
                                   SMCParamStruct.keyInfo := info,
                                   SMCParamStruct.data8 := SMC_CMD_READ_BYTES\<rparr>;
       (res2, rep2) = IOConnectCallStructMethod K (trace s @ [c1]) (g_smc_conn s) KERNEL_INDEX_SMC req2
   in (\<forall>out' size'. fst (smc_read_key K ''BCLM'' out_percentage 0 s) = Some (0, out', size') \<longrightarrow>
                     fst (smc_get_bclm K out_percentage s) = Some (0, out')) \<and>
      (res1 = KERN_SUCCESS \<longrightarrow> res2 = KERN_SUCCESS \<longrightarrow> SMCKeyInfoData.dataSize info = 0 \<longrightarrow>
         fst (smc_read_key K ''BCLM'' out_percentage 0 s) = Some (0, out_percentage, 0) \<and>
         fst (smc_get_bclm K out_percentage s) = Some (0, out_percentage))"
proof -
  obtain res1 rep1 where 1: "IOConnectCallStructMethod K (trace s) (g_smc_conn s) 2 
            (SMCParamStruct_zero\<lparr>SMCParamStruct.key := four_char_code ''BCLM'', SMCParamStruct.data8 := 9\<rparr>) = (res1, rep1)"
    by (rule prod.exhaust)
  obtain res2 rep2 where 2: "IOConnectCallStructMethod K (trace s @ [CallStructMethod (g_smc_conn s) 2 
            (SMCParamStruct_zero\<lparr>SMCParamStruct.key := four_char_code ''BCLM'', SMCParamStruct.data8 := 9\<rparr>)])
           (g_smc_conn s) 2
            (SMCParamStruct_zero\<lparr>SMCParamStruct.key := four_char_code ''BCLM'', 
               SMCParamStruct.keyInfo := SMCParamStruct.keyInfo rep1, SMCParamStruct.data8 := 5\<rparr>) = (res2, rep2)"
    by (rule prod.exhaust)
  have g: "fst (smc_get_bclm K out_percentage s) =
      map_option (\<lambda>(r, out', size'). (r, out')) (fst (smc_read_key K ''BCLM'' out_percentage 0 s))"
    by (simp add: smc_get_bclm_def split: prod.splits option.splits)
  show ?thesis
    by (simp add: Let_def 1 2 g smc_read_key_eq [OF 1 2] memcpy_def)
qed

theorem smc_get_bclm_discards_size_witness:
  "fst (smc_get_bclm (stub_kernel reg_fail KERN_SUCCESS 0 KERN_SUCCESS (replicate 32 0xAB) write_fail)
         [0x55] opened) = Some (0, [0x55])"
  using smc_get_bclm_discards_size [where s = opened
      and K = "stub_kernel reg_fail KERN_SUCCESS 0 KERN_SUCCESS (replicate 32 0xAB) write_fail"
      and out_percentage = "[0x55]"]
  by (simp add: reg_fail_def reg_ok_def write_fail_def write_ok_def stub_kernel_def opened_def Let_def)

end
